theory Spec2Isabelle
  imports Complex_Main
begin

section \<open>The host environment\<close>

text \<open>
  The component is a React function component. Three versions of it drive a render loop
  with \<^verbatim>\<open>requestAnimationFrame\<close>: the delegated one (\<^verbatim>\<open>src/components/HandDetection.tsx\<close>,
  which hands each frame to an external detector), the mock one (\<^verbatim>\<open>part_000\<close>) and the
  throttled mock one (\<^verbatim>\<open>part_001\<close>). A fourth version leaves the loop to a camera
  utility and is not modelled. JavaScript numbers are modelled as reals, except where
  the source only ever holds an integer (sizes, handles, counts); the one place where a
  branch depends on the rounding of doubles, the throttle test, takes the subtraction of
  doubles as an argument.

  A function of the component is a closure of one render: it reads \<^verbatim>\<open>isActive\<close> as that
  render bound it, whatever the state has become since. The functions below that read
  it, or pass on a closure that does, take this binding as their argument \<open>active\<close>; the
  handler installed on the video and every queued callback carry the binding of their
  closure with them.
\<close>

datatype js_error = TypeError | Rejected

text \<open>
  A function that throws part-way keeps the drawing it has done so far: both outcomes
  carry the state reached.
\<close>

datatype 'a outcome = Returned 'a | Threw js_error 'a

datatype track_state = Live | Ended

subsection \<open>The 2D drawing surface\<close>

datatype segment =
    Arc real real real real real
  | MoveTo real real
  | LineTo real real

text \<open>
  What is on the surface: the list of shapes painted since it was last blank, oldest first.
\<close>

datatype paint =
    Image real real real real
  | FilledRect string real real real real
  | Filled string "segment list"
  | Stroked string real "segment list"
  | Cleared real real real real

record context2d =
  fillStyle :: string
  strokeStyle :: string
  lineWidth :: real
  path :: "segment list"
  painted :: "paint list"

record canvas =
  width :: nat
  height :: nat
  ctx2d :: "context2d option"

text \<open>
  \<open>ctx2d\<close> is what \<^verbatim>\<open>canvas.getContext('2d')\<close> returns: \<open>None\<close> is its \<^verbatim>\<open>null\<close>.
\<close>

definition defaultContext :: context2d where
  "defaultContext =
     \<lparr>fillStyle = ''#000000'', strokeStyle = ''#000000'', lineWidth = 1,
      path = [], painted = []\<rparr>"

text \<open>
  \<^verbatim>\<open>canvas.width = w; canvas.height = h\<close>: setting a dimension blanks the surface and puts
  the context back in its default state.
\<close>

definition resize :: "nat \<Rightarrow> nat \<Rightarrow> canvas \<Rightarrow> canvas" where
  "resize w ht c =
     c\<lparr>width := w, height := ht, ctx2d := map_option (\<lambda>ctx. defaultContext) (ctx2d c)\<rparr>"

definition beginPath :: "context2d \<Rightarrow> context2d" where
  "beginPath ctx = ctx\<lparr>path := []\<rparr>"

definition arc :: "real \<Rightarrow> real \<Rightarrow> real \<Rightarrow> real \<Rightarrow> real \<Rightarrow> context2d \<Rightarrow> context2d" where
  "arc cx cy r a0 a1 ctx = ctx\<lparr>path := path ctx @ [Arc cx cy r a0 a1]\<rparr>"

definition moveTo :: "real \<Rightarrow> real \<Rightarrow> context2d \<Rightarrow> context2d" where
  "moveTo px py ctx = ctx\<lparr>path := path ctx @ [MoveTo px py]\<rparr>"

definition lineTo :: "real \<Rightarrow> real \<Rightarrow> context2d \<Rightarrow> context2d" where
  "lineTo px py ctx = ctx\<lparr>path := path ctx @ [LineTo px py]\<rparr>"

definition fill :: "context2d \<Rightarrow> context2d" where
  "fill ctx = ctx\<lparr>painted := painted ctx @ [Filled (fillStyle ctx) (path ctx)]\<rparr>"

definition stroke :: "context2d \<Rightarrow> context2d" where
  "stroke ctx =
     ctx\<lparr>painted := painted ctx @ [Stroked (strokeStyle ctx) (lineWidth ctx) (path ctx)]\<rparr>"

definition fillRect :: "real \<Rightarrow> real \<Rightarrow> real \<Rightarrow> real \<Rightarrow> context2d \<Rightarrow> context2d" where
  "fillRect px py w ht ctx =
     ctx\<lparr>painted := painted ctx @ [FilledRect (fillStyle ctx) px py w ht]\<rparr>"

definition drawImage :: "real \<Rightarrow> real \<Rightarrow> real \<Rightarrow> real \<Rightarrow> context2d \<Rightarrow> context2d" where
  "drawImage px py w ht ctx = ctx\<lparr>painted := painted ctx @ [Image px py w ht]\<rparr>"

text \<open>
  \<^verbatim>\<open>clearRect\<close> over the whole surface of canvas \<open>c\<close> leaves it blank; over a part of it,
  the cleared rectangle lies on top of what was painted.
\<close>

definition clearRect :: "canvas \<Rightarrow> real \<Rightarrow> real \<Rightarrow> real \<Rightarrow> real \<Rightarrow> context2d \<Rightarrow> context2d" where
  "clearRect c px py w ht ctx =
     (if px \<le> 0 \<and> py \<le> 0 \<and> real (width c) \<le> px + w \<and> real (height c) \<le> py + ht
      then ctx\<lparr>painted := []\<rparr>
      else ctx\<lparr>painted := painted ctx @ [Cleared px py w ht]\<rparr>)"

subsection \<open>Hands and keypoints\<close>

text \<open>
  A keypoint of the detector: \<^verbatim>\<open>{x, y, score?}\<close>. A missing score is \<open>None\<close>.
\<close>

record keypoint =
  kp_x :: real
  kp_y :: real
  score :: "real option"

record hand =
  keypoints :: "keypoint list"

text \<open>
  \<^verbatim>\<open>keypoints[i]\<close>: JavaScript reads \<^verbatim>\<open>undefined\<close> (here \<open>None\<close>) past the end of the array.
\<close>

definition lookup :: "'a list \<Rightarrow> nat \<Rightarrow> 'a option" where
  "lookup xs i = (if i < length xs then Some (xs ! i) else None)"

text \<open>
  \<^verbatim>\<open>keypoint.score && keypoint.score > 0.5\<close>: a missing score and a score of zero are falsy.
\<close>

definition aboveThreshold :: "keypoint \<Rightarrow> bool" where
  "aboveThreshold kp = (case score kp of None \<Rightarrow> False | Some sc \<Rightarrow> sc \<noteq> 0 \<and> sc > 0.5)"

definition connections :: "(nat \<times> nat) list" where
  "connections =
     [(0, 1), (1, 2), (2, 3), (3, 4),
      (0, 5), (5, 6), (6, 7), (7, 8),
      (0, 9), (9, 10), (10, 11), (11, 12),
      (0, 13), (13, 14), (14, 15), (15, 16),
      (0, 17), (17, 18), (18, 19), (19, 20),
      (5, 9), (9, 13), (13, 17)]"

subsection \<open>The overlay renderer of the delegated variant\<close>

text \<open>The body of \<^verbatim>\<open>keypoints.forEach\<close> in \<^verbatim>\<open>drawHands\<close>.\<close>

definition drawLandmark :: "keypoint \<Rightarrow> context2d \<Rightarrow> context2d" where
  "drawLandmark kp ctx =
     (if aboveThreshold kp then
        (let ctx = beginPath ctx;
             ctx = arc (kp_x kp) (kp_y kp) 3 0 (2 * pi) ctx;
             ctx = ctx\<lparr>fillStyle := ''#FF0000''\<rparr>
         in fill ctx)
      else ctx)"

text \<open>
  The body of \<^verbatim>\<open>connections.forEach\<close>. Both lookups are made first; reading \<^verbatim>\<open>.score\<close> of
  \<^verbatim>\<open>undefined\<close> throws a TypeError, and \<^verbatim>\<open>&&\<close> reads the end point's score only when the
  start point passed.
\<close>

definition drawConnection :: "keypoint list \<Rightarrow> nat \<times> nat \<Rightarrow> context2d \<Rightarrow> context2d outcome" where
  "drawConnection kps conn ctx =
     (let startPoint = lookup kps (fst conn);
          endPoint = lookup kps (snd conn)
      in case startPoint of
           None \<Rightarrow> Threw TypeError ctx
         | Some sp \<Rightarrow>
             if aboveThreshold sp then
               (case endPoint of
                  None \<Rightarrow> Threw TypeError ctx
                | Some ep \<Rightarrow>
                    if aboveThreshold ep then
                      (let ctx = beginPath ctx;
                           ctx = moveTo (kp_x sp) (kp_y sp) ctx;
                           ctx = lineTo (kp_x ep) (kp_y ep) ctx
                       in Returned (stroke ctx))
                    else Returned ctx)
             else Returned ctx)"

fun forEachConnection :: "keypoint list \<Rightarrow> (nat \<times> nat) list \<Rightarrow> context2d \<Rightarrow> context2d outcome" where
  "forEachConnection kps [] ctx = Returned ctx"
| "forEachConnection kps (conn # conns) ctx =
     (case drawConnection kps conn ctx of
        Threw e ctx' \<Rightarrow> Threw e ctx'
      | Returned ctx' \<Rightarrow> forEachConnection kps conns ctx')"

text \<open>The body of \<^verbatim>\<open>hands.forEach\<close>.\<close>

definition drawHand :: "hand \<Rightarrow> context2d \<Rightarrow> context2d outcome" where
  "drawHand hnd ctx =
     (let kps = keypoints hnd;
          ctx = fold drawLandmark kps ctx;
          ctx = ctx\<lparr>strokeStyle := ''#00FF00''\<rparr>;
          ctx = ctx\<lparr>lineWidth := 2\<rparr>
      in forEachConnection kps connections ctx)"

fun forEachHand :: "hand list \<Rightarrow> context2d \<Rightarrow> context2d outcome" where
  "forEachHand [] ctx = Returned ctx"
| "forEachHand (hnd # hnds) ctx =
     (case drawHand hnd ctx of
        Threw e ctx' \<Rightarrow> Threw e ctx'
      | Returned ctx' \<Rightarrow> forEachHand hnds ctx')"

subsection \<open>The component and its host\<close>

text \<open>
  \<open>srcObject\<close> is the attached \<^verbatim>\<open>MediaStream\<close>, as the identifiers of its tracks
  (\<^verbatim>\<open>getTracks()\<close>); \<open>onloadedmetadata\<close> is the handler installed, if any, as the
  \<^verbatim>\<open>isActive\<close> binding of its closure; \<open>metadataDue\<close> says that a stream has been attached
  whose metadata the video has yet to report (it reports them once).
\<close>

record video =
  srcObject :: "nat list option"
  videoWidth :: nat
  videoHeight :: nat
  onloadedmetadata :: "bool option"
  metadataDue :: bool

datatype detector = HandDetector

text \<open>
  One record holds the React state (\<open>isActive\<close>, \<open>handCount\<close>, \<open>error\<close>, \<open>isLoading\<close>, as
  the setters leave them for the next render), the refs (\<open>videoRef\<close>, \<open>canvasRef\<close>,
  \<open>detectorRef\<close> of the delegated variant, \<open>animationFrameRef\<close>, \<open>lastFrameTime\<close> of the
  throttled variant; \<open>None\<close> is a ref whose \<^verbatim>\<open>current\<close> is \<^verbatim>\<open>null\<close>) and the part of the host
  the component acts on: the state of every media track, the animation-frame callbacks
  requested and not yet run or cancelled (\<open>pending\<close>, oldest first, by handle), the
  \<^verbatim>\<open>isActive\<close> binding of the closure queued under each handle (\<open>queued\<close>), the last
  handle the host gave out (\<open>frameId\<close>), the lines written by \<^verbatim>\<open>console.error\<close> and the
  number of calls of \<^verbatim>\<open>getUserMedia\<close>.
\<close>

record component =
  isActive :: bool
  handCount :: int
  error :: "string option"
  isLoading :: bool
  videoRef :: "video option"
  canvasRef :: "canvas option"
  detectorRef :: "detector option"
  animationFrameRef :: "nat option"
  lastFrameTime :: real
  tracks :: "nat \<Rightarrow> track_state"
  pending :: "nat list"
  queued :: "nat \<Rightarrow> bool"
  frameId :: nat
  console :: "string list"
  cameraRequests :: nat

text \<open>
  \<^verbatim>\<open>requestAnimationFrame\<close> gives out the next handle (always positive) and queues the
  callback; in each variant the only callback ever queued is the render tick, as the
  closure of some render: \<open>active\<close> is what that closure reads as \<^verbatim>\<open>isActive\<close>.
\<close>

definition requestAnimationFrame :: "bool \<Rightarrow> component \<Rightarrow> nat \<times> component" where
  "requestAnimationFrame active s =
     (let h = Suc (frameId s)
      in (h, s\<lparr>frameId := h, pending := pending s @ [h], queued := (queued s)(h := active)\<rparr>))"

definition cancelAnimationFrame :: "nat \<Rightarrow> component \<Rightarrow> component" where
  "cancelAnimationFrame h s = s\<lparr>pending := removeAll h (pending s)\<rparr>"

text \<open>\<^verbatim>\<open>animationFrameRef.current = requestAnimationFrame(tick)\<close>.\<close>

definition scheduleTick :: "bool \<Rightarrow> component \<Rightarrow> component" where
  "scheduleTick active s =
     (let (h, s) = requestAnimationFrame active s in s\<lparr>animationFrameRef := Some h\<rparr>)"

text \<open>\<^verbatim>\<open>if (animationFrameRef.current)\<close>: \<^verbatim>\<open>null\<close> and \<^verbatim>\<open>0\<close> are falsy.\<close>

definition truthy :: "nat option \<Rightarrow> bool" where
  "truthy r = (case r of None \<Rightarrow> False | Some h \<Rightarrow> h \<noteq> 0)"

definition consoleError :: "string \<Rightarrow> component \<Rightarrow> component" where
  "consoleError msg s = s\<lparr>console := console s @ [msg]\<rparr>"

text \<open>\<^verbatim>\<open>track.stop()\<close> and \<^verbatim>\<open>stream.getTracks().forEach(track => track.stop())\<close>.\<close>

definition stopTrack :: "nat \<Rightarrow> (nat \<Rightarrow> track_state) \<Rightarrow> (nat \<Rightarrow> track_state)" where
  "stopTrack t ts = ts(t := Ended)"

definition stopTracks :: "nat list \<Rightarrow> (nat \<Rightarrow> track_state) \<Rightarrow> (nat \<Rightarrow> track_state)" where
  "stopTracks stream ts = fold stopTrack stream ts"

text \<open>The component after its first render, never started.\<close>

definition mounted :: component where
  "mounted =
     \<lparr>isActive = False, handCount = 0, error = None, isLoading = False,
      videoRef = Some \<lparr>srcObject = None, videoWidth = 0, videoHeight = 0,
                       onloadedmetadata = None, metadataDue = False\<rparr>,
      canvasRef = Some \<lparr>width = 300, height = 150, ctx2d = Some defaultContext\<rparr>,
      detectorRef = None, animationFrameRef = None, lastFrameTime = 0,
      tracks = (\<lambda>t. Live), pending = [], queued = (\<lambda>h. False), frameId = 0,
      console = [], cameraRequests = 0\<rparr>"

section \<open>The delegated variant\<close>

text \<open>
  \<^verbatim>\<open>drawHands\<close>. It returns at once without a canvas or a context; the \<^verbatim>\<open>forEach\<close> over
  the hands may throw, and what was drawn before stays on the surface.
\<close>

definition drawHands :: "hand list \<Rightarrow> component \<Rightarrow> component outcome" where
  "drawHands hnds s =
     (case canvasRef s of
        None \<Rightarrow> Returned s
      | Some c \<Rightarrow>
          (case ctx2d c of
             None \<Rightarrow> Returned s
           | Some ctx \<Rightarrow>
               (let ctx = clearRect c 0 0 (real (width c)) (real (height c)) ctx;
                    ctx = (if videoRef s \<noteq> None
                           then drawImage 0 0 (real (width c)) (real (height c)) ctx
                           else ctx)
                in case forEachHand hnds ctx of
                     Returned ctx' \<Rightarrow> Returned (s\<lparr>canvasRef := Some (c\<lparr>ctx2d := Some ctx'\<rparr>)\<rparr>)
                   | Threw e ctx' \<Rightarrow> Threw e (s\<lparr>canvasRef := Some (c\<lparr>ctx2d := Some ctx'\<rparr>)\<rparr>))))"

text \<open>
  One render tick, \<^verbatim>\<open>detectHands\<close>, taken as a whole: \<open>estimate\<close> is what the awaited
  \<^verbatim>\<open>estimateHands\<close> call of this tick yields (\<open>Inl\<close> when it rejects). \<open>active\<close> is the
  value of \<^verbatim>\<open>isActive\<close> that the tick reads: the binding of the render whose closure runs.
  The tick queues itself: the same closure.
\<close>

definition detectHands_delegated :: "bool \<Rightarrow> js_error + hand list \<Rightarrow> component \<Rightarrow> component" where
  "detectHands_delegated active estimate s =
     (if videoRef s = None \<or> detectorRef s = None \<or> canvasRef s = None then s
      else
        (let s = (case estimate of
                    Inl err \<Rightarrow> consoleError ''Hand detection error:'' s
                  | Inr hnds \<Rightarrow>
                      (let s = s\<lparr>handCount := int (length hnds)\<rparr>
                       in case drawHands hnds s of
                            Returned s' \<Rightarrow> s'
                          | Threw err s' \<Rightarrow> consoleError ''Hand detection error:'' s'))
         in if active then scheduleTick active s else s))"

definition cameraFailed :: "component \<Rightarrow> component" where
  "cameraFailed s =
     consoleError ''Camera error:''
       (s\<lparr>error := Some ''Failed to access camera. Please ensure camera permissions are granted.''\<rparr>)"

text \<open>
  \<^verbatim>\<open>startDetection\<close>: \<open>userMedia\<close> is what \<^verbatim>\<open>getUserMedia\<close> yields (\<open>Inl\<close> when it rejects,
  else the tracks of the stream), \<open>played\<close> whether \<^verbatim>\<open>video.play()\<close> resolves. The handler
  it installs calls the \<^verbatim>\<open>detectHands\<close> of the same render: \<open>active\<close> is the \<^verbatim>\<open>isActive\<close> of
  that render.
\<close>

definition startDetection_delegated ::
  "bool \<Rightarrow> js_error + nat list \<Rightarrow> bool \<Rightarrow> component \<Rightarrow> component" where
  "startDetection_delegated active userMedia played s =
     (let s = s\<lparr>error := None\<rparr>
      in if detectorRef s = None
         then s\<lparr>error := Some ''Hand detection model not loaded yet. Please try again.''\<rparr>
         else
           (let s = s\<lparr>cameraRequests := Suc (cameraRequests s)\<rparr>
            in case userMedia of
                 Inl err \<Rightarrow> cameraFailed s
               | Inr stream \<Rightarrow>
                   (case videoRef s of
                      None \<Rightarrow> s
                    | Some v \<Rightarrow>
                        (let s = s\<lparr>videoRef :=
                                   Some (v\<lparr>srcObject := Some stream, metadataDue := True,
                                          onloadedmetadata := Some active\<rparr>)\<rparr>
                         in if played then s else cameraFailed s))))"

definition stopDetection_delegated :: "component \<Rightarrow> component" where
  "stopDetection_delegated s =
     (let s = s\<lparr>isActive := False\<rparr>;
          s = s\<lparr>handCount := 0\<rparr>;
          s = (if truthy (animationFrameRef s)
               then cancelAnimationFrame (the (animationFrameRef s)) s
               else s);
          s = (case videoRef s of
                 None \<Rightarrow> s
               | Some v \<Rightarrow>
                   (case srcObject v of
                      None \<Rightarrow> s
                    | Some stream \<Rightarrow>
                        s\<lparr>tracks := stopTracks stream (tracks s),
                          videoRef := Some (v\<lparr>srcObject := None\<rparr>)\<rparr>))
      in case canvasRef s of
           None \<Rightarrow> s
         | Some c \<Rightarrow>
             (case ctx2d c of
                None \<Rightarrow> s
              | Some ctx \<Rightarrow>
                  s\<lparr>canvasRef := Some (c\<lparr>ctx2d :=
                       Some (clearRect c 0 0 (real (width c)) (real (height c)) ctx)\<rparr>)\<rparr>))"

text \<open>
  The effect run on mount, \<^verbatim>\<open>initializeDetector\<close>, taken as a whole: \<open>loaded\<close> says whether
  the model loads.
\<close>

definition initializeDetector :: "bool \<Rightarrow> component \<Rightarrow> component" where
  "initializeDetector loaded s =
     (let s = s\<lparr>isLoading := True\<rparr>
      in if loaded then
           (let s = s\<lparr>detectorRef := Some HandDetector\<rparr>
            in s\<lparr>isLoading := False\<rparr>)
         else
           (let s = consoleError ''Failed to initialize hand detector:'' s;
                s = s\<lparr>error := Some ''Failed to initialize hand detection model''\<rparr>
            in s\<lparr>isLoading := False\<rparr>))"

text \<open>
  The handler that \<^verbatim>\<open>startDetection\<close> installs, a closure of the same render: it sizes the
  canvas, sets \<^verbatim>\<open>isActive\<close> and calls \<^verbatim>\<open>detectHands\<close>, the first tick.
\<close>

definition onloadedmetadata_delegated ::
  "bool \<Rightarrow> js_error + hand list \<Rightarrow> component \<Rightarrow> component" where
  "onloadedmetadata_delegated active estimate s =
     (case videoRef s of
        None \<Rightarrow> s
      | Some v \<Rightarrow>
          (case canvasRef s of
             None \<Rightarrow> s
           | Some c \<Rightarrow>
               (let s = s\<lparr>canvasRef := Some (resize (videoWidth v) (videoHeight v) c)\<rparr>;
                    s = s\<lparr>isActive := True\<rparr>
                in detectHands_delegated active estimate s)))"

text \<open>
  The video reports the metadata of the stream attached, if they are due (its native
  size \<open>w\<close> by \<open>ht\<close>): the host calls the handler installed.
\<close>

definition loadedmetadata_delegated ::
  "nat \<Rightarrow> nat \<Rightarrow> js_error + hand list \<Rightarrow> component \<Rightarrow> component" where
  "loadedmetadata_delegated w ht estimate s =
     (case videoRef s of
        None \<Rightarrow> s
      | Some v \<Rightarrow>
          if srcObject v = None \<or> \<not> metadataDue v then s
          else
            (let s = s\<lparr>videoRef := Some (v\<lparr>videoWidth := w, videoHeight := ht,
                                          metadataDue := False\<rparr>)\<rparr>
             in case onloadedmetadata v of
                  None \<Rightarrow> s
                | Some active \<Rightarrow> onloadedmetadata_delegated active estimate s))"

text \<open>
  A click on the button, \<^verbatim>\<open>disabled={isLoading}\<close> and
  \<^verbatim>\<open>onClick={isActive ? stopDetection : startDetection}\<close>: the button is that of the
  render of the state \<open>s\<close>, so the \<^verbatim>\<open>startDetection\<close> it calls is the closure of a render
  whose \<^verbatim>\<open>isActive\<close> is that of \<open>s\<close>.
\<close>

definition click_delegated :: "js_error + nat list \<Rightarrow> bool \<Rightarrow> component \<Rightarrow> component" where
  "click_delegated userMedia played s =
     (if isLoading s then s
      else if isActive s then stopDetection_delegated s
      else startDetection_delegated (isActive s) userMedia played s)"

text \<open>
  An animation frame: the host takes the oldest pending callback off its list and calls
  it, the closure that was queued.
\<close>

definition animationFrame_delegated :: "js_error + hand list \<Rightarrow> component \<Rightarrow> component" where
  "animationFrame_delegated estimate s =
     (case pending s of
        [] \<Rightarrow> s
      | h # rest \<Rightarrow> detectHands_delegated (queued s h) estimate (s\<lparr>pending := rest\<rparr>))"

text \<open>
  What can happen to the mounted component, and a run of it from its first render. A run
  allows more than the host does (the detector may settle more than once), so what holds
  of every run holds of every state the component reaches.
\<close>

datatype event_delegated =
    DetectorSettled bool
  | Click_delegated "js_error + nat list" bool
  | LoadedMetadata_delegated nat nat "js_error + hand list"
  | AnimationFrame_delegated "js_error + hand list"

fun step_delegated :: "event_delegated \<Rightarrow> component \<Rightarrow> component" where
  "step_delegated (DetectorSettled loaded) s = initializeDetector loaded s"
| "step_delegated (Click_delegated userMedia played) s = click_delegated userMedia played s"
| "step_delegated (LoadedMetadata_delegated w ht estimate) s =
     loadedmetadata_delegated w ht estimate s"
| "step_delegated (AnimationFrame_delegated estimate) s = animationFrame_delegated estimate s"

definition run_delegated :: "event_delegated list \<Rightarrow> component" where
  "run_delegated events = fold step_delegated events mounted"

section \<open>The mock variant\<close>

text \<open>The body of the loop over the five fingers in \<^verbatim>\<open>drawMockHands\<close>.\<close>

definition mockFinger :: "real \<Rightarrow> real \<Rightarrow> real \<Rightarrow> nat \<Rightarrow> context2d \<Rightarrow> context2d" where
  "mockFinger centerX centerY handSize f ctx =
     (let angle = (real f * pi / 4) - pi / 8;
          fingerLength = handSize * 0.7;
          endX = centerX + cos angle * fingerLength;
          endY = centerY + sin angle * fingerLength;
          ctx = beginPath ctx;
          ctx = moveTo centerX centerY ctx;
          ctx = lineTo endX endY ctx;
          ctx = ctx\<lparr>strokeStyle := ''#00FF00''\<rparr>;
          ctx = ctx\<lparr>lineWidth := 2\<rparr>;
          ctx = stroke ctx;
          ctx = beginPath ctx;
          ctx = arc endX endY 3 0 (2 * pi) ctx;
          ctx = ctx\<lparr>fillStyle := ''#FF0000''\<rparr>
      in fill ctx)"

text \<open>The body of the loop over the hands in \<^verbatim>\<open>drawMockHands\<close>.\<close>

definition mockHand :: "real \<Rightarrow> real \<Rightarrow> nat \<Rightarrow> context2d \<Rightarrow> context2d" where
  "mockHand w ht h ctx =
     (let centerX = w * (0.25 + (real h * 0.5));
          centerY = ht * 0.5;
          handSize = min w ht * 0.2;
          ctx = beginPath ctx;
          ctx = arc centerX centerY (handSize * 0.3) 0 (2 * pi) ctx;
          ctx = ctx\<lparr>strokeStyle := ''#00FF00''\<rparr>;
          ctx = ctx\<lparr>lineWidth := 2\<rparr>;
          ctx = stroke ctx
      in fold (mockFinger centerX centerY handSize) [0..<5] ctx)"

definition drawMockHands :: "context2d \<Rightarrow> real \<Rightarrow> real \<Rightarrow> int \<Rightarrow> context2d" where
  "drawMockHands ctx w ht count =
     (let ctx = ctx\<lparr>fillStyle := ''rgba(255, 255, 255, 0.2)''\<rparr>;
          ctx = fillRect 0 0 w ht ctx
      in fold (mockHand w ht) [0..<nat count] ctx)"

text \<open>
  One render tick, \<^verbatim>\<open>detectHands\<close> of the mock variant. \<open>random\<close> is what \<^verbatim>\<open>Math.random()\<close>
  yields in this tick; \<open>active\<close> is the \<^verbatim>\<open>isActive\<close> that the tick reads.
\<close>

definition detectHands_mock :: "bool \<Rightarrow> real \<Rightarrow> component \<Rightarrow> component" where
  "detectHands_mock active random s =
     (case videoRef s of
        None \<Rightarrow> s
      | Some v \<Rightarrow>
          (case canvasRef s of
             None \<Rightarrow> s
           | Some c \<Rightarrow>
               (case ctx2d c of
                  None \<Rightarrow> s
                | Some ctx \<Rightarrow>
                    (let ctx = drawImage 0 0 (real (width c)) (real (height c)) ctx
                     in if active then
                          (let randomHandCount = \<lfloor>random * 2\<rfloor> + 1;
                               s = s\<lparr>handCount := randomHandCount\<rparr>;
                               ctx = drawMockHands ctx (real (width c)) (real (height c))
                                       randomHandCount;
                               s = s\<lparr>canvasRef := Some (c\<lparr>ctx2d := Some ctx\<rparr>)\<rparr>
                           in scheduleTick active s)
                        else s\<lparr>canvasRef := Some (c\<lparr>ctx2d := Some ctx\<rparr>)\<rparr>))))"

definition stopDetection_mock :: "component \<Rightarrow> component" where
  "stopDetection_mock s =
     (let s = s\<lparr>isActive := False\<rparr>;
          s = s\<lparr>handCount := 0\<rparr>;
          s = (if truthy (animationFrameRef s)
               then cancelAnimationFrame (the (animationFrameRef s)) s
               else s);
          s = (case videoRef s of
                 None \<Rightarrow> s
               | Some v \<Rightarrow>
                   (case srcObject v of
                      None \<Rightarrow> s
                    | Some stream \<Rightarrow>
                        s\<lparr>tracks := stopTracks stream (tracks s),
                          videoRef := Some (v\<lparr>srcObject := None\<rparr>)\<rparr>))
      in case canvasRef s of
           None \<Rightarrow> s
         | Some c \<Rightarrow>
             (case ctx2d c of
                None \<Rightarrow> s
              | Some ctx \<Rightarrow>
                  s\<lparr>canvasRef := Some (c\<lparr>ctx2d :=
                       Some (clearRect c 0 0 (real (width c)) (real (height c)) ctx)\<rparr>)\<rparr>))"

definition cameraFailed_mock :: "component \<Rightarrow> component" where
  "cameraFailed_mock s =
     (let s = s\<lparr>error :=
                 Some ''Failed to access camera. Please ensure camera permissions are granted.''\<rparr>;
          s = consoleError ''Camera error:'' s
      in s\<lparr>isLoading := False\<rparr>)"

text \<open>
  \<^verbatim>\<open>startDetection\<close> of the mock variant, with \<open>userMedia\<close>, \<open>played\<close> and \<open>active\<close> as in the
  delegated variant.
\<close>

definition startDetection_mock ::
  "bool \<Rightarrow> js_error + nat list \<Rightarrow> bool \<Rightarrow> component \<Rightarrow> component" where
  "startDetection_mock active userMedia played s =
     (let s = s\<lparr>error := None\<rparr>;
          s = s\<lparr>isLoading := True\<rparr>;
          s = s\<lparr>cameraRequests := Suc (cameraRequests s)\<rparr>
      in case userMedia of
           Inl err \<Rightarrow> cameraFailed_mock s
         | Inr stream \<Rightarrow>
             (case videoRef s of
                None \<Rightarrow> s
              | Some v \<Rightarrow>
                  (let s = s\<lparr>videoRef :=
                             Some (v\<lparr>srcObject := Some stream, metadataDue := True,
                                    onloadedmetadata := Some active\<rparr>)\<rparr>
                   in if played then s else cameraFailed_mock s)))"

text \<open>The handler it installs: \<open>random\<close> is the \<^verbatim>\<open>Math.random()\<close> of the first tick.\<close>

definition onloadedmetadata_mock :: "bool \<Rightarrow> real \<Rightarrow> component \<Rightarrow> component" where
  "onloadedmetadata_mock active random s =
     (case videoRef s of
        None \<Rightarrow> s
      | Some v \<Rightarrow>
          (case canvasRef s of
             None \<Rightarrow> s
           | Some c \<Rightarrow>
               (let s = s\<lparr>canvasRef := Some (resize (videoWidth v) (videoHeight v) c)\<rparr>;
                    s = s\<lparr>isActive := True\<rparr>;
                    s = s\<lparr>isLoading := False\<rparr>
                in detectHands_mock active random s)))"

definition loadedmetadata_mock :: "nat \<Rightarrow> nat \<Rightarrow> real \<Rightarrow> component \<Rightarrow> component" where
  "loadedmetadata_mock w ht random s =
     (case videoRef s of
        None \<Rightarrow> s
      | Some v \<Rightarrow>
          if srcObject v = None \<or> \<not> metadataDue v then s
          else
            (let s = s\<lparr>videoRef := Some (v\<lparr>videoWidth := w, videoHeight := ht,
                                          metadataDue := False\<rparr>)\<rparr>
             in case onloadedmetadata v of
                  None \<Rightarrow> s
                | Some active \<Rightarrow> onloadedmetadata_mock active random s))"

definition click_mock :: "js_error + nat list \<Rightarrow> bool \<Rightarrow> component \<Rightarrow> component" where
  "click_mock userMedia played s =
     (if isLoading s then s
      else if isActive s then stopDetection_mock s
      else startDetection_mock (isActive s) userMedia played s)"

definition animationFrame_mock :: "real \<Rightarrow> component \<Rightarrow> component" where
  "animationFrame_mock random s =
     (case pending s of
        [] \<Rightarrow> s
      | h # rest \<Rightarrow> detectHands_mock (queued s h) random (s\<lparr>pending := rest\<rparr>))"

datatype event_mock =
    Click_mock "js_error + nat list" bool
  | LoadedMetadata_mock nat nat real
  | AnimationFrame_mock real

fun step_mock :: "event_mock \<Rightarrow> component \<Rightarrow> component" where
  "step_mock (Click_mock userMedia played) s = click_mock userMedia played s"
| "step_mock (LoadedMetadata_mock w ht random) s = loadedmetadata_mock w ht random s"
| "step_mock (AnimationFrame_mock random) s = animationFrame_mock random s"

definition run_mock :: "event_mock list \<Rightarrow> component" where
  "run_mock events = fold step_mock events mounted"

section \<open>The throttled variant\<close>

text \<open>The body of the loop over the five fingers in \<^verbatim>\<open>drawSimulatedHands\<close>.\<close>

definition simulatedFinger :: "real \<Rightarrow> real \<Rightarrow> real \<Rightarrow> real \<Rightarrow> nat \<Rightarrow> context2d \<Rightarrow> context2d" where
  "simulatedFinger centerX centerY handSize time f ctx =
     (let angleOffset = sin (time * 2 + real f * 0.7) * 0.2;
          angle = (real f * pi / 4) - pi / 8 + angleOffset;
          lengthMod = sin (time * 3 + real f * 1.2) * 0.1 + 0.9;
          fingerLength = handSize * 0.7 * lengthMod;
          endX = centerX + cos angle * fingerLength;
          endY = centerY + sin angle * fingerLength;
          ctx = beginPath ctx;
          ctx = moveTo centerX centerY ctx;
          ctx = lineTo endX endY ctx;
          ctx = ctx\<lparr>strokeStyle := ''#00FF00''\<rparr>;
          ctx = ctx\<lparr>lineWidth := 2\<rparr>;
          ctx = stroke ctx;
          ctx = beginPath ctx;
          ctx = arc endX endY 4 0 (2 * pi) ctx;
          ctx = ctx\<lparr>fillStyle := ''#FF0000''\<rparr>;
          ctx = fill ctx;
          midX = centerX + cos angle * fingerLength * 0.5;
          midY = centerY + sin angle * fingerLength * 0.5;
          ctx = beginPath ctx;
          ctx = arc midX midY 3 0 (2 * pi) ctx;
          ctx = ctx\<lparr>fillStyle := ''#FF0000''\<rparr>
      in fill ctx)"

text \<open>The body of the loop over the hands in \<^verbatim>\<open>drawSimulatedHands\<close>.\<close>

definition simulatedHand :: "real \<Rightarrow> real \<Rightarrow> real \<Rightarrow> nat \<Rightarrow> context2d \<Rightarrow> context2d" where
  "simulatedHand w ht time h ctx =
     (let xOffset = sin (time * 0.7 + real h * 1.5) * w * 0.15;
          yOffset = cos (time * 0.5 + real h * 2.3) * ht * 0.1;
          centerX = w * (0.25 + (real h * 0.5)) + xOffset;
          centerY = ht * 0.5 + yOffset;
          handSize = min w ht * 0.15;
          ctx = beginPath ctx;
          ctx = arc centerX centerY (handSize * 0.25) 0 (2 * pi) ctx;
          ctx = ctx\<lparr>fillStyle := ''rgba(0, 255, 0, 0.2)''\<rparr>;
          ctx = fill ctx;
          ctx = ctx\<lparr>strokeStyle := ''#00FF00''\<rparr>;
          ctx = ctx\<lparr>lineWidth := 2\<rparr>;
          ctx = stroke ctx
      in fold (simulatedFinger centerX centerY handSize time) [0..<5] ctx)"

definition drawSimulatedHands :: "context2d \<Rightarrow> real \<Rightarrow> real \<Rightarrow> int \<Rightarrow> real \<Rightarrow> context2d" where
  "drawSimulatedHands ctx w ht count time =
     (let ctx = ctx\<lparr>fillStyle := ''rgba(0, 0, 0, 0.2)''\<rparr>;
          ctx = fillRect 0 0 w ht ctx
      in fold (simulatedHand w ht time) [0..<nat count] ctx)"

text \<open>
  One render tick, \<^verbatim>\<open>updateCanvas\<close>. \<open>timestamp\<close> is the argument the host passes,
  \<open>random\<close> and \<open>now\<close> what \<^verbatim>\<open>Math.random()\<close> and \<^verbatim>\<open>Date.now()\<close> yield in this tick, and
  \<open>active\<close> the \<^verbatim>\<open>isActive\<close> that the tick reads. \<open>subtract\<close> is the subtraction of doubles
  (IEEE 754, rounded to nearest) of \<^verbatim>\<open>timestamp - lastFrameTime.current\<close>: the model does
  not fix it, so what is proved of the tick holds whatever the rounding.
\<close>

definition updateCanvas ::
  "(real \<Rightarrow> real \<Rightarrow> real) \<Rightarrow> bool \<Rightarrow> real \<Rightarrow> real \<Rightarrow> real \<Rightarrow> component \<Rightarrow> component" where
  "updateCanvas subtract active timestamp random now s =
     (case videoRef s of
        None \<Rightarrow> s
      | Some v \<Rightarrow>
          (case canvasRef s of
             None \<Rightarrow> s
           | Some c \<Rightarrow>
               if subtract timestamp (lastFrameTime s) < 33 then
                 (if active then scheduleTick active s else s)
               else
                 (let s = s\<lparr>lastFrameTime := timestamp\<rparr>
                  in case ctx2d c of
                       None \<Rightarrow> s
                     | Some ctx \<Rightarrow>
                         (let ctx = drawImage 0 0 (real (width c)) (real (height c)) ctx
                          in if active then
                               (let randomHandCount = \<lfloor>random * 2\<rfloor> + 1;
                                    s = s\<lparr>handCount := randomHandCount\<rparr>;
                                    time = now * 0.001;
                                    ctx = drawSimulatedHands ctx (real (width c))
                                            (real (height c)) randomHandCount time;
                                    s = s\<lparr>canvasRef := Some (c\<lparr>ctx2d := Some ctx\<rparr>)\<rparr>
                                in scheduleTick active s)
                             else s\<lparr>canvasRef := Some (c\<lparr>ctx2d := Some ctx\<rparr>)\<rparr>))))"

definition stopDetection_throttled :: "component \<Rightarrow> component" where
  "stopDetection_throttled s =
     (let s = s\<lparr>isActive := False\<rparr>;
          s = s\<lparr>handCount := 0\<rparr>;
          s = (if truthy (animationFrameRef s)
               then (cancelAnimationFrame (the (animationFrameRef s)) s)\<lparr>animationFrameRef := None\<rparr>
               else s);
          s = (case videoRef s of
                 None \<Rightarrow> s
               | Some v \<Rightarrow>
                   (case srcObject v of
                      None \<Rightarrow> s
                    | Some stream \<Rightarrow>
                        s\<lparr>tracks := stopTracks stream (tracks s),
                          videoRef := Some (v\<lparr>srcObject := None\<rparr>)\<rparr>))
      in case canvasRef s of
           None \<Rightarrow> s
         | Some c \<Rightarrow>
             (case ctx2d c of
                None \<Rightarrow> s
              | Some ctx \<Rightarrow>
                  s\<lparr>canvasRef := Some (c\<lparr>ctx2d :=
                       Some (clearRect c 0 0 (real (width c)) (real (height c)) ctx)\<rparr>)\<rparr>))"

text \<open>
  \<^verbatim>\<open>startDetection\<close> of the throttled variant. \<open>userMedia\<close> is what \<^verbatim>\<open>getUserMedia\<close> yields:
  the tracks of the stream, or \<open>Inl\<close> when it rejects, with the message of the error
  thrown (\<open>None\<close> when what is thrown is not an \<^verbatim>\<open>Error\<close>).
\<close>

definition startDetection_throttled ::
  "bool \<Rightarrow> string option + nat list \<Rightarrow> component \<Rightarrow> component" where
  "startDetection_throttled active userMedia s =
     (let s = s\<lparr>error := None\<rparr>;
          s = s\<lparr>isLoading := True\<rparr>;
          s = s\<lparr>cameraRequests := Suc (cameraRequests s)\<rparr>
      in case userMedia of
           Inl err \<Rightarrow>
             (let errorMessage = (case err of Some msg \<Rightarrow> msg | None \<Rightarrow> ''Unknown error'');
                  s = s\<lparr>error := Some (''Failed to access camera: '' @ errorMessage
                         @ ''. Please ensure camera permissions are granted.'')\<rparr>;
                  s = consoleError ''Camera error:'' s
              in s\<lparr>isLoading := False\<rparr>)
         | Inr stream \<Rightarrow>
             (case videoRef s of
                None \<Rightarrow> s
              | Some v \<Rightarrow>
                  s\<lparr>videoRef :=
                      Some (v\<lparr>srcObject := Some stream, metadataDue := True,
                             onloadedmetadata := Some active\<rparr>)\<rparr>))"

text \<open>
  The handler it installs sizes the canvas and calls \<^verbatim>\<open>video.play()\<close>: \<open>playError\<close> is
  \<open>None\<close> when that resolves, else the message of its rejection. When it resolves the
  handler sets \<^verbatim>\<open>isActive\<close> and queues \<^verbatim>\<open>updateCanvas\<close>, the closure of its own render.
\<close>

definition onloadedmetadata_throttled :: "bool \<Rightarrow> string option \<Rightarrow> component \<Rightarrow> component" where
  "onloadedmetadata_throttled active playError s =
     (case videoRef s of
        None \<Rightarrow> s
      | Some v \<Rightarrow>
          (case canvasRef s of
             None \<Rightarrow> s
           | Some c \<Rightarrow>
               (let s = s\<lparr>canvasRef := Some (resize (videoWidth v) (videoHeight v) c)\<rparr>
                in case playError of
                     None \<Rightarrow>
                       (let s = s\<lparr>isActive := True\<rparr>;
                            s = s\<lparr>isLoading := False\<rparr>
                        in scheduleTick active s)
                   | Some msg \<Rightarrow>
                       (let s = s\<lparr>error := Some (''Failed to play video: '' @ msg)\<rparr>
                        in s\<lparr>isLoading := False\<rparr>))))"

definition loadedmetadata_throttled ::
  "nat \<Rightarrow> nat \<Rightarrow> string option \<Rightarrow> component \<Rightarrow> component" where
  "loadedmetadata_throttled w ht playError s =
     (case videoRef s of
        None \<Rightarrow> s
      | Some v \<Rightarrow>
          if srcObject v = None \<or> \<not> metadataDue v then s
          else
            (let s = s\<lparr>videoRef := Some (v\<lparr>videoWidth := w, videoHeight := ht,
                                          metadataDue := False\<rparr>)\<rparr>
             in case onloadedmetadata v of
                  None \<Rightarrow> s
                | Some active \<Rightarrow> onloadedmetadata_throttled active playError s))"

definition click_throttled :: "string option + nat list \<Rightarrow> component \<Rightarrow> component" where
  "click_throttled userMedia s =
     (if isLoading s then s
      else if isActive s then stopDetection_throttled s
      else startDetection_throttled (isActive s) userMedia s)"

definition animationFrame_throttled ::
  "(real \<Rightarrow> real \<Rightarrow> real) \<Rightarrow> real \<Rightarrow> real \<Rightarrow> real \<Rightarrow> component \<Rightarrow> component" where
  "animationFrame_throttled subtract timestamp random now s =
     (case pending s of
        [] \<Rightarrow> s
      | h # rest \<Rightarrow>
          updateCanvas subtract (queued s h) timestamp random now (s\<lparr>pending := rest\<rparr>))"

text \<open>What can happen to the mounted throttled component, and a run of it.\<close>

datatype event_throttled =
    Click_throttled "string option + nat list"
  | LoadedMetadata_throttled nat nat "string option"
  | AnimationFrame_throttled real real real

fun step_throttled ::
  "(real \<Rightarrow> real \<Rightarrow> real) \<Rightarrow> event_throttled \<Rightarrow> component \<Rightarrow> component" where
  "step_throttled subtract (Click_throttled userMedia) s = click_throttled userMedia s"
| "step_throttled subtract (LoadedMetadata_throttled w ht playError) s =
     loadedmetadata_throttled w ht playError s"
| "step_throttled subtract (AnimationFrame_throttled timestamp random now) s =
     animationFrame_throttled subtract timestamp random now s"

definition run_throttled ::
  "(real \<Rightarrow> real \<Rightarrow> real) \<Rightarrow> event_throttled list \<Rightarrow> component" where
  "run_throttled subtract events = fold (step_throttled subtract) events mounted"

text \<open>
  Subtraction without rounding: what the subtraction of doubles computes whenever the
  exact difference is itself a double, as it is for the small integers of the concrete
  runs below.
\<close>

definition exactMinus :: "real \<Rightarrow> real \<Rightarrow> real" where
  "exactMinus a b = a - b"

section \<open>Running the render loop\<close>

text \<open>
  The host runs the oldest pending callback: it takes the handle off the list and calls
  the tick. Each run below feeds the ticks their inputs in turn and stops when nothing
  is pending (the loop has ended). A tick \<^emph>\<open>processes a frame\<close> when it reaches its
  \<^verbatim>\<open>setHandCount(randomHandCount)\<close>; the hand counts of a run are the counts set by the
  ticks that do. These runs take what the ticks read as \<^verbatim>\<open>isActive\<close> as an argument, so
  that they cover every closure that could be queued.
\<close>

definition processesFrame_mock :: "bool \<Rightarrow> component \<Rightarrow> bool" where
  "processesFrame_mock active s =
     (active \<and> videoRef s \<noteq> None \<and>
      (case canvasRef s of None \<Rightarrow> False | Some c \<Rightarrow> ctx2d c \<noteq> None))"

definition processesFrame_throttled ::
  "(real \<Rightarrow> real \<Rightarrow> real) \<Rightarrow> bool \<Rightarrow> real \<Rightarrow> component \<Rightarrow> bool" where
  "processesFrame_throttled subtract active timestamp s =
     (processesFrame_mock active s \<and> \<not> subtract timestamp (lastFrameTime s) < 33)"

fun handCounts_mock :: "bool \<Rightarrow> real list \<Rightarrow> component \<Rightarrow> int list" where
  "handCounts_mock active [] s = []"
| "handCounts_mock active (random # rest) s =
     (case pending s of
        [] \<Rightarrow> []
      | h # hs \<Rightarrow>
          (let s0 = s\<lparr>pending := hs\<rparr>;
               s' = detectHands_mock active random s0
           in (if processesFrame_mock active s0 then [handCount s'] else [])
              @ handCounts_mock active rest s'))"

text \<open>The inputs of a throttled tick: its timestamp, \<^verbatim>\<open>Math.random()\<close> and \<^verbatim>\<open>Date.now()\<close>.\<close>

fun handCounts_throttled ::
  "(real \<Rightarrow> real \<Rightarrow> real) \<Rightarrow> bool \<Rightarrow> (real \<times> real \<times> real) list \<Rightarrow> component \<Rightarrow> int list" where
  "handCounts_throttled subtract active [] s = []"
| "handCounts_throttled subtract active ((timestamp, random, now) # rest) s =
     (case pending s of
        [] \<Rightarrow> []
      | h # hs \<Rightarrow>
          (let s0 = s\<lparr>pending := hs\<rparr>;
               s' = updateCanvas subtract active timestamp random now s0
           in (if processesFrame_throttled subtract active timestamp s0 then [handCount s'] else [])
              @ handCounts_throttled subtract active rest s'))"

section \<open>Vocabulary of the properties\<close>

text \<open>What is painted on the canvas of the component (nothing without a canvas or context).\<close>

definition surface :: "component \<Rightarrow> paint list" where
  "surface s =
     (case canvasRef s of
        None \<Rightarrow> []
      | Some c \<Rightarrow> (case ctx2d c of None \<Rightarrow> [] | Some ctx \<Rightarrow> painted ctx))"

text \<open>
  The overlay as the specification describes it: a filled circular marker for each
  keypoint whose score is strictly above 0.5, and a line for each connection whose two
  end points both are.
\<close>

definition confident :: "keypoint \<Rightarrow> bool" where
  "confident kp = (case score kp of None \<Rightarrow> False | Some sc \<Rightarrow> 0.5 < sc)"

definition landmarkMarker :: "keypoint \<Rightarrow> paint" where
  "landmarkMarker kp = Filled ''#FF0000'' [Arc (kp_x kp) (kp_y kp) 3 0 (2 * pi)]"

definition connectionLine :: "keypoint list \<Rightarrow> nat \<times> nat \<Rightarrow> paint" where
  "connectionLine kps conn =
     Stroked ''#00FF00'' 2
       [MoveTo (kp_x (kps ! fst conn)) (kp_y (kps ! fst conn)),
        LineTo (kp_x (kps ! snd conn)) (kp_y (kps ! snd conn))]"

definition bothConfident :: "keypoint list \<Rightarrow> nat \<times> nat \<Rightarrow> bool" where
  "bothConfident kps conn = (confident (kps ! fst conn) \<and> confident (kps ! snd conn))"

definition expectedOverlay :: "hand \<Rightarrow> paint list" where
  "expectedOverlay hnd =
     map landmarkMarker (filter confident (keypoints hnd))
     @ map (connectionLine (keypoints hnd)) (filter (bothConfident (keypoints hnd)) connections)"

text \<open>
  Every scheduling site of the component stores the handle it gets in
  \<open>animationFrameRef\<close>, and a tick queues at most one tick: in a state the component
  has reached, at most one tick is pending, and its handle is the one recorded there.
\<close>

definition tracked :: "component \<Rightarrow> bool" where
  "tracked s =
     (case pending s of
        [] \<Rightarrow> True
      | h # hs \<Rightarrow> hs = [] \<and> h \<noteq> 0 \<and> animationFrameRef s = Some h)"

text \<open>
  A component that has queued no tick and holds no closure that reads \<^verbatim>\<open>isActive\<close> as
  true: nothing is pending, no handle is stored, and the handler on the video, if any,
  is that of a render whose \<^verbatim>\<open>isActive\<close> was false.
\<close>

definition quiet :: "component \<Rightarrow> bool" where
  "quiet s =
     (animationFrameRef s = None \<and> pending s = [] \<and>
      (case videoRef s of None \<Rightarrow> True | Some v \<Rightarrow> onloadedmetadata v \<noteq> Some True))"

text \<open>
  A component all of whose closures read \<^verbatim>\<open>isActive\<close> as false: the handler on the video,
  if any, and every tick that is queued.
\<close>

definition stale :: "component \<Rightarrow> bool" where
  "stale s =
     ((case videoRef s of None \<Rightarrow> True | Some v \<Rightarrow> onloadedmetadata v \<noteq> Some True) \<and>
      list_all (\<lambda>h. \<not> queued s h) (pending s))"

text \<open>
  What every run of the throttled component keeps: its one pending tick is tracked, its
  closures are stale, and while a tick is pending the component is active and no
  metadata are due.
\<close>

definition orderly :: "component \<Rightarrow> bool" where
  "orderly s =
     (tracked s \<and> stale s \<and>
      (pending s \<noteq> [] \<longrightarrow>
         isActive s \<and> (case videoRef s of None \<Rightarrow> True | Some v \<Rightarrow> \<not> metadataDue v)))"

text \<open>
  What \<^verbatim>\<open>stop()\<close> promises of the state \<open>s'\<close> it leaves, called in state \<open>s\<close>: not active, no
  hands counted, no tick pending, every track of the attached stream ended and the stream
  detached from the video, and the surface blank.
\<close>

definition stopped :: "component \<Rightarrow> component \<Rightarrow> bool" where
  "stopped s s' =
     (\<not> isActive s' \<and> handCount s' = 0 \<and> pending s' = [] \<and>
      (case videoRef s of
         None \<Rightarrow> videoRef s' = None
       | Some v \<Rightarrow>
           videoRef s' = Some (v\<lparr>srcObject := None\<rparr>) \<and>
           (case srcObject v of
              None \<Rightarrow> True
            | Some stream \<Rightarrow> list_all (\<lambda>t. tracks s' t = Ended) stream)) \<and>
      surface s' = [])"

text \<open>
  The idle component, as it is before \<^verbatim>\<open>start()\<close> and after \<^verbatim>\<open>stop()\<close>: not active, no
  hands counted, no stream attached, no tick pending, a blank surface.
\<close>

definition idle :: "component \<Rightarrow> bool" where
  "idle s =
     (\<not> isActive s \<and> handCount s = 0 \<and> pending s = [] \<and>
      (case videoRef s of None \<Rightarrow> True | Some v \<Rightarrow> srcObject v = None) \<and>
      surface s = [])"

section \<open>Concrete components\<close>

text \<open>
  A component in the middle of a run whose ticks read \<^verbatim>\<open>isActive\<close> as true: a stream of
  two tracks attached, the detector loaded, one tick pending, the last frame processed at
  time 100.
\<close>

definition streaming :: component where
  "streaming =
     \<lparr>isActive = True, handCount = 2, error = None, isLoading = False,
      videoRef = Some \<lparr>srcObject = Some [1, 2], videoWidth = 640, videoHeight = 480,
                       onloadedmetadata = Some True, metadataDue = False\<rparr>,
      canvasRef = Some \<lparr>width = 640, height = 480,
                        ctx2d = Some (defaultContext\<lparr>painted := [Image 0 0 640 480]\<rparr>)\<rparr>,
      detectorRef = Some HandDetector, animationFrameRef = Some 5, lastFrameTime = 100,
      tracks = (\<lambda>t. Live), pending = [5], queued = (\<lambda>h. True), frameId = 5,
      console = [], cameraRequests = 1\<rparr>"

text \<open>
  The components of the three variants once the user has clicked Start on the mounted
  component (in the delegated variant with the detector loaded), the camera has given a
  stream of two tracks and the video has reported its size, 640 by 480. In the delegated
  variant the detector then finds \<open>demoHand\<close> in the first frame, or rejects it; in the
  throttled variant \<^verbatim>\<open>play()\<close> resolves and the first tick is queued, not yet run.
\<close>

definition sureKeypoint :: keypoint where
  "sureKeypoint = \<lparr>kp_x = 10, kp_y = 20, score = Some 0.9\<rparr>"

definition borderKeypoint :: keypoint where
  "borderKeypoint = \<lparr>kp_x = 30, kp_y = 40, score = Some 0.5\<rparr>"

definition demoHand :: hand where
  "demoHand = \<lparr>keypoints = replicate 20 sureKeypoint @ [borderKeypoint]\<rparr>"

definition started_delegated :: "js_error + hand list \<Rightarrow> component" where
  "started_delegated estimate =
     run_delegated [DetectorSettled True, Click_delegated (Inr [1, 2]) True,
       LoadedMetadata_delegated 640 480 estimate]"

definition started_mock :: component where
  "started_mock = run_mock [Click_mock (Inr [1, 2]) True, LoadedMetadata_mock 640 480 (1 / 2)]"

definition started_throttled :: component where
  "started_throttled =
     run_throttled exactMinus
       [Click_throttled (Inr [1, 2]), LoadedMetadata_throttled 640 480 None]"

section \<open>The overlay renderer: threshold and bounds\<close>

lemma connections_bound: "\<forall>conn \<in> set connections. fst conn \<le> 20 \<and> snd conn \<le> 20"
  by (simp add: connections_def)

lemma aboveThreshold_confident: "aboveThreshold = confident"
  by (auto simp: aboveThreshold_def confident_def fun_eq_iff split: option.splits)

lemma bothConfident_code: "bothConfident kps conn = (aboveThreshold (kps ! fst conn) \<and> aboveThreshold (kps ! snd conn))"
  by (simp add: bothConfident_def aboveThreshold_confident)

lemma painted_drawLandmark:
  "painted (drawLandmark kp ctx) =
     painted ctx @ (if confident kp then [landmarkMarker kp] else [])"
  by (simp add: aboveThreshold_confident drawLandmark_def beginPath_def arc_def fill_def landmarkMarker_def Let_def)

lemma painted_fold_drawLandmark:
  "painted (fold drawLandmark kps ctx) =
     painted ctx @ map landmarkMarker (filter confident kps)"
  by (induction kps arbitrary: ctx) (simp_all add: painted_drawLandmark)

lemma drawConnection_in_bounds:
  assumes "fst conn < length kps" and "snd conn < length kps"
    and "strokeStyle ctx = ''#00FF00''" and "lineWidth ctx = 2"
  shows "\<exists>ctx'. drawConnection kps conn ctx = Returned ctx'
           \<and> painted ctx' = painted ctx @ (if bothConfident kps conn then [connectionLine kps conn] else [])
           \<and> strokeStyle ctx' = ''#00FF00'' \<and> lineWidth ctx' = 2"
  using assms
  by (simp add: drawConnection_def lookup_def bothConfident_code connectionLine_def
      beginPath_def moveTo_def lineTo_def stroke_def Let_def)

lemma forEachConnection_returns:
  assumes "\<forall>conn \<in> set conns. fst conn < length kps \<and> snd conn < length kps"
    and "strokeStyle ctx = ''#00FF00''" and "lineWidth ctx = 2"
  shows "\<exists>ctx'. forEachConnection kps conns ctx = Returned ctx'
           \<and> painted ctx' = painted ctx @ map (connectionLine kps) (filter (bothConfident kps) conns)"
  using assms
proof (induction conns arbitrary: ctx)
  case Nil
  then show ?case by simp
next
  case (Cons conn conns)
  from Cons.prems have "fst conn < length kps" and "snd conn < length kps" by simp_all
  from drawConnection_in_bounds [OF this Cons.prems(2,3)] obtain ctx1 where
    d: "drawConnection kps conn ctx = Returned ctx1"
    and p: "painted ctx1 = painted ctx @ (if bothConfident kps conn then [connectionLine kps conn] else [])"
    and st: "strokeStyle ctx1 = ''#00FF00''" "lineWidth ctx1 = 2"
    by blast
  from Cons.prems have "\<forall>conn \<in> set conns. fst conn < length kps \<and> snd conn < length kps"
    by simp
  from Cons.IH [OF this st] obtain ctx' where
    "forEachConnection kps conns ctx1 = Returned ctx'"
    and "painted ctx' = painted ctx1 @ map (connectionLine kps) (filter (bothConfident kps) conns)"
    by blast
  with d p show ?case by simp
qed

lemma drawHand_returns:
  assumes "21 \<le> length (keypoints hnd)"
  shows "\<exists>ctx'. drawHand hnd ctx = Returned ctx'
           \<and> painted ctx' = painted ctx @ expectedOverlay hnd"
proof -
  let ?kps = "keypoints hnd"
  let ?ctx = "(fold drawLandmark ?kps ctx)\<lparr>strokeStyle := ''#00FF00'', lineWidth := 2\<rparr>"
  have inb: "\<forall>conn \<in> set connections. fst conn < length ?kps \<and> snd conn < length ?kps"
    using connections_bound assms by fastforce
  from forEachConnection_returns [OF inb, of ?ctx]
  obtain ctx' where "forEachConnection ?kps connections ?ctx = Returned ctx'"
    and "painted ctx' = painted ?ctx @ map (connectionLine ?kps) (filter (bothConfident ?kps) connections)"
    by auto
  then show ?thesis
    by (simp add: drawHand_def Let_def painted_fold_drawLandmark expectedOverlay_def)
qed

lemma forEachHand_returns:
  assumes "\<forall>hnd \<in> set hnds. 21 \<le> length (keypoints hnd)"
  shows "\<exists>ctx'. forEachHand hnds ctx = Returned ctx'
           \<and> painted ctx' = painted ctx @ concat (map expectedOverlay hnds)"
  using assms
proof (induction hnds arbitrary: ctx)
  case Nil
  then show ?case by simp
next
  case (Cons hnd hnds)
  from Cons.prems have "21 \<le> length (keypoints hnd)" by simp
  from drawHand_returns [OF this, of ctx] obtain ctx1 where
    d: "drawHand hnd ctx = Returned ctx1"
    and p: "painted ctx1 = painted ctx @ expectedOverlay hnd"
    by blast
  from Cons.prems have "\<forall>hnd \<in> set hnds. 21 \<le> length (keypoints hnd)" by simp
  from Cons.IH [OF this, of ctx1] obtain ctx' where
    "forEachHand hnds ctx1 = Returned ctx'"
    and "painted ctx' = painted ctx1 @ concat (map expectedOverlay hnds)"
    by blast
  with d p show ?case by simp
qed

lemma drawHands_returns:
  assumes "canvasRef s = Some c" and "ctx2d c = Some ctx"
    and "\<forall>hnd \<in> set hnds. 21 \<le> length (keypoints hnd)"
  shows "\<exists>s'. drawHands hnds s = Returned s'
           \<and> surface s' =
               (if videoRef s \<noteq> None then [Image 0 0 (real (width c)) (real (height c))] else [])
               @ concat (map expectedOverlay hnds)
           \<and> s' = s\<lparr>canvasRef := canvasRef s'\<rparr>"
proof -
  let ?ctx = "clearRect c 0 0 (real (width c)) (real (height c)) ctx"
  let ?ctx1 = "if videoRef s \<noteq> None then drawImage 0 0 (real (width c)) (real (height c)) ?ctx else ?ctx"
  from forEachHand_returns [OF assms(3), of ?ctx1] obtain ctx' where
    f: "forEachHand hnds ?ctx1 = Returned ctx'"
    and p: "painted ctx' = painted ?ctx1 @ concat (map expectedOverlay hnds)"
    by blast
  have "painted ?ctx1 = (if videoRef s \<noteq> None then [Image 0 0 (real (width c)) (real (height c))] else [])"
    by (simp add: clearRect_def drawImage_def)
  with f p assms(1,2) show ?thesis
    by (simp add: drawHands_def surface_def Let_def)
qed

text \<open>
  Claim C2. In the overlay renderer of the delegated variant, with a canvas and its
  context at hand and at least 21 keypoints in every hand, \<^verbatim>\<open>drawHands\<close> returns and leaves
  on the surface the video frame and then, hand by hand, exactly the overlay of the
  specification: a marker for each keypoint whose score is strictly above 0.5 and a line
  for each connection whose two end points both are. A keypoint of score 0.49 or 0.5 is
  not drawn.
\<close>

theorem threshold_gating:
  assumes "canvasRef s = Some c" and "ctx2d c = Some ctx"
    and "\<forall>hnd \<in> set hnds. 21 \<le> length (keypoints hnd)"
  shows "(\<exists>s'. drawHands hnds s = Returned s'
            \<and> surface s' =
                (if videoRef s \<noteq> None then [Image 0 0 (real (width c)) (real (height c))] else [])
                @ concat (map expectedOverlay hnds))
         \<and> (confident kp \<longleftrightarrow> (\<exists>sc. score kp = Some sc \<and> 0.5 < sc))
         \<and> (score kp = Some 0.49 \<or> score kp = Some 0.5 \<longrightarrow> drawLandmark kp ctx0 = ctx0)"
proof (intro conjI)
  from drawHands_returns [OF assms]
  show "\<exists>s'. drawHands hnds s = Returned s'
            \<and> surface s' =
                (if videoRef s \<noteq> None then [Image 0 0 (real (width c)) (real (height c))] else [])
                @ concat (map expectedOverlay hnds)"
    by blast
next
  show "confident kp \<longleftrightarrow> (\<exists>sc. score kp = Some sc \<and> 0.5 < sc)"
    by (simp add: confident_def split: option.splits)
next
  show "score kp = Some 0.49 \<or> score kp = Some 0.5 \<longrightarrow> drawLandmark kp ctx0 = ctx0"
    by (auto simp: drawLandmark_def aboveThreshold_def)
qed

theorem threshold_gating_witness:
  "(\<exists>s'. drawHands [demoHand] streaming = Returned s'
      \<and> surface s' = Image 0 0 640 480 # expectedOverlay demoHand)
   \<and> length (filter confident (keypoints demoHand)) = 20
   \<and> drawLandmark borderKeypoint defaultContext = defaultContext"
proof -
  have c: "canvasRef streaming = Some (the (canvasRef streaming))"
    by (simp add: streaming_def)
  have x: "ctx2d (the (canvasRef streaming)) = Some (the (ctx2d (the (canvasRef streaming))))"
    by (simp add: streaming_def)
  have h: "\<forall>hnd \<in> set [demoHand]. 21 \<le> length (keypoints hnd)"
    by (simp add: demoHand_def)
  from threshold_gating [OF c x h, of borderKeypoint defaultContext] show ?thesis
    by (simp add: streaming_def demoHand_def borderKeypoint_def sureKeypoint_def confident_def)
qed

text \<open>
  Claim C10. Every joint index of the connection list is at most 20. For a hand of at
  least 21 keypoints every lookup of an end point is in bounds and drawing the hand does
  not throw. The bound is needed: with fewer than 21 keypoints some lookup is out of
  bounds. The code does not check it: drawing a hand without keypoints throws a TypeError.
\<close>

theorem connection_lookups_in_bounds:
  "(\<forall>conn \<in> set connections. fst conn \<le> 20 \<and> snd conn \<le> 20)
   \<and> (21 \<le> length (keypoints hnd) \<longrightarrow>
        (\<forall>conn \<in> set connections.
           lookup (keypoints hnd) (fst conn) \<noteq> None \<and> lookup (keypoints hnd) (snd conn) \<noteq> None)
        \<and> (\<exists>ctx'. drawHand hnd ctx = Returned ctx'))
   \<and> (length (keypoints hnd) < 21 \<longrightarrow>
        (\<exists>conn \<in> set connections. lookup (keypoints hnd) (snd conn) = None))
   \<and> (\<exists>ctx'. drawHand \<lparr>keypoints = []\<rparr> ctx = Threw TypeError ctx')"
proof (intro conjI impI)
  show "\<forall>conn \<in> set connections. fst conn \<le> 20 \<and> snd conn \<le> 20"
    by (rule connections_bound)
next
  assume "21 \<le> length (keypoints hnd)"
  then show "\<forall>conn \<in> set connections.
           lookup (keypoints hnd) (fst conn) \<noteq> None \<and> lookup (keypoints hnd) (snd conn) \<noteq> None"
    using connections_bound by (fastforce simp: lookup_def)
next
  assume "21 \<le> length (keypoints hnd)"
  from drawHand_returns [OF this, of ctx]
  show "\<exists>ctx'. drawHand hnd ctx = Returned ctx'" by blast
next
  assume "length (keypoints hnd) < 21"
  moreover have "(19, 20) \<in> set connections" by (simp add: connections_def)
  ultimately show "\<exists>conn \<in> set connections. lookup (keypoints hnd) (snd conn) = None"
    by (force simp: lookup_def)
next
  show "\<exists>ctx'. drawHand \<lparr>keypoints = []\<rparr> ctx = Threw TypeError ctx'"
    by (simp add: drawHand_def connections_def drawConnection_def lookup_def Let_def)
qed

theorem connection_lookups_in_bounds_witness:
  "lookup (keypoints demoHand) 20 = Some borderKeypoint
   \<and> (\<exists>ctx'. drawHand demoHand defaultContext = Returned ctx')
   \<and> (\<exists>conn \<in> set connections. lookup (keypoints \<lparr>keypoints = [sureKeypoint]\<rparr>) (snd conn) = None)"
proof -
  have a: "21 \<le> length (keypoints demoHand)" by (simp add: demoHand_def)
  have b: "length (keypoints \<lparr>keypoints = [sureKeypoint]\<rparr>) < 21" by simp
  have "lookup (keypoints demoHand) 20 = Some borderKeypoint"
    by (simp add: lookup_def demoHand_def nth_append)
  with connection_lookups_in_bounds [of demoHand defaultContext] a
    connection_lookups_in_bounds [of "\<lparr>keypoints = [sureKeypoint]\<rparr>" defaultContext] b
  show ?thesis by blast
qed

section \<open>Stopping\<close>

lemma stopTrack_apply: "stopTrack a ts t = (if t = a then Ended else ts t)"
  by (simp add: stopTrack_def)

lemma fold_stopTrack_keeps: "ts t = Ended \<Longrightarrow> fold stopTrack stream ts t = Ended"
  by (induction stream arbitrary: ts) (simp_all add: stopTrack_apply)

lemma stopTracks_ended: "t \<in> set stream \<Longrightarrow> stopTracks stream ts t = Ended"
  unfolding stopTracks_def
proof (induction stream arbitrary: ts)
  case Nil
  then show ?case by simp
next
  case (Cons a stream)
  show ?case
  proof (cases "t = a")
    case True
    have "stopTrack a ts t = Ended"
      using True by (simp add: stopTrack_apply)
    from fold_stopTrack_keeps [of "stopTrack a ts" t stream, OF this] show ?thesis by simp
  next
    case False
    with Cons show ?thesis by simp
  qed
qed

lemma stopTracks_all_ended: "list_all (\<lambda>t. stopTracks stream ts t = Ended) stream"
  by (simp add: list_all_iff stopTracks_ended)

lemma tracked_removeAll:
  assumes "tracked s"
  shows "(if truthy (animationFrameRef s) then removeAll (the (animationFrameRef s)) (pending s)
          else pending s) = []"
proof (cases "pending s")
  case Nil
  then show ?thesis by simp
next
  case (Cons h hs)
  with assms have "hs = []" "h \<noteq> 0" "animationFrameRef s = Some h"
    by (simp_all add: tracked_def)
  with Cons show ?thesis by (simp add: truthy_def)
qed

lemma detach_same: "srcObject v = None \<Longrightarrow> v\<lparr>srcObject := None\<rparr> = v"
  by (cases v) simp

lemma blank_same:
  "ctx2d c = Some ctx \<Longrightarrow> painted ctx = [] \<Longrightarrow> c\<lparr>ctx2d := Some (ctx\<lparr>painted := []\<rparr>)\<rparr> = c"
  by (cases c, cases ctx) simp

lemma stop_delegated_fields:
  "isActive (stopDetection_delegated s) = False"
  "handCount (stopDetection_delegated s) = 0"
  "error (stopDetection_delegated s) = error s"
  "isLoading (stopDetection_delegated s) = isLoading s"
  "detectorRef (stopDetection_delegated s) = detectorRef s"
  "animationFrameRef (stopDetection_delegated s) = animationFrameRef s"
  "lastFrameTime (stopDetection_delegated s) = lastFrameTime s"
  "frameId (stopDetection_delegated s) = frameId s"
  "console (stopDetection_delegated s) = console s"
  "cameraRequests (stopDetection_delegated s) = cameraRequests s"
  "queued (stopDetection_delegated s) = queued s"
  "component.more (stopDetection_delegated s) = component.more s"
  "pending (stopDetection_delegated s) =
     (if truthy (animationFrameRef s) then removeAll (the (animationFrameRef s)) (pending s)
      else pending s)"
  "videoRef (stopDetection_delegated s) = map_option (\<lambda>v. v\<lparr>srcObject := None\<rparr>) (videoRef s)"
  "tracks (stopDetection_delegated s) =
     (case videoRef s of
        None \<Rightarrow> tracks s
      | Some v \<Rightarrow>
          (case srcObject v of None \<Rightarrow> tracks s | Some stream \<Rightarrow> stopTracks stream (tracks s)))"
  "canvasRef (stopDetection_delegated s) =
     map_option (\<lambda>c. c\<lparr>ctx2d := map_option (\<lambda>ctx. ctx\<lparr>painted := []\<rparr>) (ctx2d c)\<rparr>) (canvasRef s)"
  by (simp_all add: stopDetection_delegated_def cancelAnimationFrame_def clearRect_def
      detach_same Let_def split: option.splits)

lemma stopped_delegated:
  assumes "tracked s"
  shows "stopped s (stopDetection_delegated s)"
  using tracked_removeAll [OF assms]
  by (simp add: stopped_def surface_def stop_delegated_fields stopTracks_all_ended
      split: option.splits)

lemma stop_idle_delegated:
  assumes "idle s"
  shows "stopDetection_delegated s = s"
proof (rule component.equality)
  show "videoRef (stopDetection_delegated s) = videoRef (s)"
    using assms by (auto simp: idle_def stop_delegated_fields detach_same split: option.splits)
  show "canvasRef (stopDetection_delegated s) = canvasRef (s)"
    using assms by (auto simp: idle_def surface_def stop_delegated_fields blank_same split: option.splits)
qed (use assms in \<open>simp_all add: idle_def stop_delegated_fields split: option.splits\<close>)

lemma stop_twice_delegated:
  "stopDetection_delegated (stopDetection_delegated s) = stopDetection_delegated s"
  by (rule component.equality)
    (simp_all add: stop_delegated_fields option.map_comp comp_def truthy_def split: option.splits)

lemma stop_mock_fields:
  "isActive (stopDetection_mock s) = False"
  "handCount (stopDetection_mock s) = 0"
  "error (stopDetection_mock s) = error s"
  "isLoading (stopDetection_mock s) = isLoading s"
  "detectorRef (stopDetection_mock s) = detectorRef s"
  "animationFrameRef (stopDetection_mock s) = animationFrameRef s"
  "lastFrameTime (stopDetection_mock s) = lastFrameTime s"
  "frameId (stopDetection_mock s) = frameId s"
  "console (stopDetection_mock s) = console s"
  "cameraRequests (stopDetection_mock s) = cameraRequests s"
  "queued (stopDetection_mock s) = queued s"
  "component.more (stopDetection_mock s) = component.more s"
  "pending (stopDetection_mock s) =
     (if truthy (animationFrameRef s) then removeAll (the (animationFrameRef s)) (pending s)
      else pending s)"
  "videoRef (stopDetection_mock s) = map_option (\<lambda>v. v\<lparr>srcObject := None\<rparr>) (videoRef s)"
  "tracks (stopDetection_mock s) =
     (case videoRef s of
        None \<Rightarrow> tracks s
      | Some v \<Rightarrow>
          (case srcObject v of None \<Rightarrow> tracks s | Some stream \<Rightarrow> stopTracks stream (tracks s)))"
  "canvasRef (stopDetection_mock s) =
     map_option (\<lambda>c. c\<lparr>ctx2d := map_option (\<lambda>ctx. ctx\<lparr>painted := []\<rparr>) (ctx2d c)\<rparr>) (canvasRef s)"
  by (simp_all add: stopDetection_mock_def cancelAnimationFrame_def clearRect_def
      detach_same Let_def split: option.splits)

lemma stopped_mock:
  assumes "tracked s"
  shows "stopped s (stopDetection_mock s)"
  using tracked_removeAll [OF assms]
  by (simp add: stopped_def surface_def stop_mock_fields stopTracks_all_ended
      split: option.splits)

lemma stop_idle_mock:
  assumes "idle s"
  shows "stopDetection_mock s = s"
proof (rule component.equality)
  show "videoRef (stopDetection_mock s) = videoRef (s)"
    using assms by (auto simp: idle_def stop_mock_fields detach_same split: option.splits)
  show "canvasRef (stopDetection_mock s) = canvasRef (s)"
    using assms by (auto simp: idle_def surface_def stop_mock_fields blank_same split: option.splits)
qed (use assms in \<open>simp_all add: idle_def stop_mock_fields split: option.splits\<close>)

lemma stop_twice_mock:
  "stopDetection_mock (stopDetection_mock s) = stopDetection_mock s"
  by (rule component.equality)
    (simp_all add: stop_mock_fields option.map_comp comp_def truthy_def split: option.splits)

lemma stop_throttled_fields:
  "isActive (stopDetection_throttled s) = False"
  "handCount (stopDetection_throttled s) = 0"
  "error (stopDetection_throttled s) = error s"
  "isLoading (stopDetection_throttled s) = isLoading s"
  "detectorRef (stopDetection_throttled s) = detectorRef s"
  "animationFrameRef (stopDetection_throttled s) = (if truthy (animationFrameRef s) then None else animationFrameRef s)"
  "lastFrameTime (stopDetection_throttled s) = lastFrameTime s"
  "frameId (stopDetection_throttled s) = frameId s"
  "console (stopDetection_throttled s) = console s"
  "cameraRequests (stopDetection_throttled s) = cameraRequests s"
  "queued (stopDetection_throttled s) = queued s"
  "component.more (stopDetection_throttled s) = component.more s"
  "pending (stopDetection_throttled s) =
     (if truthy (animationFrameRef s) then removeAll (the (animationFrameRef s)) (pending s)
      else pending s)"
  "videoRef (stopDetection_throttled s) = map_option (\<lambda>v. v\<lparr>srcObject := None\<rparr>) (videoRef s)"
  "tracks (stopDetection_throttled s) =
     (case videoRef s of
        None \<Rightarrow> tracks s
      | Some v \<Rightarrow>
          (case srcObject v of None \<Rightarrow> tracks s | Some stream \<Rightarrow> stopTracks stream (tracks s)))"
  "canvasRef (stopDetection_throttled s) =
     map_option (\<lambda>c. c\<lparr>ctx2d := map_option (\<lambda>ctx. ctx\<lparr>painted := []\<rparr>) (ctx2d c)\<rparr>) (canvasRef s)"
  by (simp_all add: stopDetection_throttled_def cancelAnimationFrame_def clearRect_def
      detach_same Let_def split: option.splits)

lemma stopped_throttled:
  assumes "tracked s"
  shows "stopped s (stopDetection_throttled s)"
  using tracked_removeAll [OF assms]
  by (simp add: stopped_def surface_def stop_throttled_fields stopTracks_all_ended
      split: option.splits)

lemma stop_idle_throttled:
  assumes "idle s"
  shows "stopDetection_throttled s = s\<lparr>animationFrameRef := (if truthy (animationFrameRef s) then None else animationFrameRef s)\<rparr>"
proof (rule component.equality)
  show "videoRef (stopDetection_throttled s) = videoRef (s\<lparr>animationFrameRef := (if truthy (animationFrameRef s) then None else animationFrameRef s)\<rparr>)"
    using assms by (auto simp: idle_def stop_throttled_fields detach_same split: option.splits)
  show "canvasRef (stopDetection_throttled s) = canvasRef (s\<lparr>animationFrameRef := (if truthy (animationFrameRef s) then None else animationFrameRef s)\<rparr>)"
    using assms by (auto simp: idle_def surface_def stop_throttled_fields blank_same split: option.splits)
qed (use assms in \<open>simp_all add: idle_def stop_throttled_fields split: option.splits\<close>)

lemma stop_twice_throttled:
  "stopDetection_throttled (stopDetection_throttled s) = stopDetection_throttled s"
  by (rule component.equality)
    (simp_all add: stop_throttled_fields option.map_comp comp_def truthy_def split: option.splits)

lemma stopped_idle:
  assumes "stopped s s'"
  shows "idle s'"
  using assms by (auto simp: stopped_def idle_def split: option.splits)

text \<open>
  Claim C3. In every state where at most the tick recorded in \<open>animationFrameRef\<close> is
  pending, \<^verbatim>\<open>stop()\<close> leaves the component idle: not active (\<open>isActive\<close> is the activity
  flag of the code) with a hand count of 0, no tick pending, every track of the stream
  that was attached ended, the stream detached from the video and the surface blank. It
  holds for the three variants alike.
\<close>

theorem stop_postcondition:
  assumes "tracked s"
  shows "stopped s (stopDetection_delegated s) \<and> idle (stopDetection_delegated s)
         \<and> stopped s (stopDetection_throttled s) \<and> idle (stopDetection_throttled s)
         \<and> stopped s (stopDetection_mock s) \<and> idle (stopDetection_mock s)"
  using stopped_delegated [OF assms] stopped_throttled [OF assms] stopped_mock [OF assms]
  by (simp add: stopped_idle)

theorem stop_postcondition_witness:
  "tracked streaming
   \<and> \<not> isActive (stopDetection_delegated streaming)
   \<and> handCount (stopDetection_delegated streaming) = 0
   \<and> pending (stopDetection_delegated streaming) = []
   \<and> tracks (stopDetection_delegated streaming) 1 = Ended
   \<and> tracks (stopDetection_delegated streaming) 2 = Ended
   \<and> surface (stopDetection_delegated streaming) = []
   \<and> stopped streaming (stopDetection_throttled streaming)
   \<and> idle (stopDetection_mock streaming)"
proof -
  have t: "tracked streaming"
    by (simp add: tracked_def streaming_def)
  from stop_postcondition [OF t] t show ?thesis
    by (simp add: stopped_def streaming_def)
qed

text \<open>
  Claim C4. On an idle component \<^verbatim>\<open>stop()\<close> changes nothing (in the throttled variant at
  most a stale stored handle is dropped), and it returns normally in every state: no
  statement of it can throw. Calling it a second time changes nothing in any state, so
  it is idempotent; the component that was never started is idle.
\<close>

theorem stop_idempotent:
  "(idle s \<longrightarrow>
      stopDetection_delegated s = s \<and> stopDetection_mock s = s \<and>
      stopDetection_throttled s =
        s\<lparr>animationFrameRef :=
             (if truthy (animationFrameRef s) then None else animationFrameRef s)\<rparr>)
   \<and> stopDetection_delegated (stopDetection_delegated s) = stopDetection_delegated s
   \<and> stopDetection_mock (stopDetection_mock s) = stopDetection_mock s
   \<and> stopDetection_throttled (stopDetection_throttled s) = stopDetection_throttled s"
  by (simp add: stop_idle_delegated stop_idle_mock stop_idle_throttled
      stop_twice_delegated stop_twice_mock stop_twice_throttled)

theorem stop_idempotent_witness:
  "idle mounted
   \<and> stopDetection_delegated mounted = mounted
   \<and> stopDetection_mock mounted = mounted
   \<and> stopDetection_throttled mounted = mounted"
proof -
  have i: "idle mounted"
    by (simp add: idle_def mounted_def surface_def defaultContext_def)
  have "animationFrameRef mounted = None"
    by (simp add: mounted_def)
  with stop_idempotent [of mounted] i show ?thesis
    by (simp add: truthy_def)
qed

section \<open>The render tick\<close>

text \<open>
  What a tick does that reads \<^verbatim>\<open>isActive\<close> as true, with the video, the canvas and its
  context at hand: it sets the hand count, draws the frame and the hands, and queues
  itself once.
\<close>

lemma scheduleTick_eq:
  "scheduleTick active s =
     s\<lparr>frameId := Suc (frameId s), pending := pending s @ [Suc (frameId s)],
       queued := (queued s)(Suc (frameId s) := active),
       animationFrameRef := Some (Suc (frameId s))\<rparr>"
  by (simp add: scheduleTick_def requestAnimationFrame_def Let_def)

lemma detectHands_mock_active:
  assumes "videoRef s = Some v" and "canvasRef s = Some c" and "ctx2d c = Some ctx"
  shows "detectHands_mock True random s =
           s\<lparr>handCount := \<lfloor>random * 2\<rfloor> + 1,
             canvasRef := Some (c\<lparr>ctx2d := Some (drawMockHands
               (drawImage 0 0 (real (width c)) (real (height c)) ctx)
               (real (width c)) (real (height c)) (\<lfloor>random * 2\<rfloor> + 1))\<rparr>),
             frameId := Suc (frameId s), pending := pending s @ [Suc (frameId s)],
             queued := (queued s)(Suc (frameId s) := True),
             animationFrameRef := Some (Suc (frameId s))\<rparr>"
  using assms by (simp add: detectHands_mock_def scheduleTick_eq Let_def)

lemma updateCanvas_active:
  assumes "videoRef s = Some v" and "canvasRef s = Some c" and "ctx2d c = Some ctx"
    and "\<not> subtract timestamp (lastFrameTime s) < 33"
  shows "updateCanvas subtract True timestamp random now s =
           s\<lparr>lastFrameTime := timestamp, handCount := \<lfloor>random * 2\<rfloor> + 1,
             canvasRef := Some (c\<lparr>ctx2d := Some (drawSimulatedHands
               (drawImage 0 0 (real (width c)) (real (height c)) ctx)
               (real (width c)) (real (height c)) (\<lfloor>random * 2\<rfloor> + 1) (now * 0.001))\<rparr>),
             frameId := Suc (frameId s), pending := pending s @ [Suc (frameId s)],
             queued := (queued s)(Suc (frameId s) := True),
             animationFrameRef := Some (Suc (frameId s))\<rparr>"
  using assms by (simp add: updateCanvas_def scheduleTick_eq Let_def)

lemma drawHands_keeps:
  assumes "drawHands hnds s = Returned s' \<or> drawHands hnds s = Threw e s'"
  shows "pending s' = pending s \<and> animationFrameRef s' = animationFrameRef s
         \<and> frameId s' = frameId s \<and> console s' = console s \<and> handCount s' = handCount s
         \<and> videoRef s' = videoRef s \<and> isActive s' = isActive s"
  using assms by (auto simp: drawHands_def Let_def split: option.splits outcome.splits)

lemma detectHands_delegated_schedule:
  "pending (detectHands_delegated active estimate s) =
     (if active \<and> videoRef s \<noteq> None \<and> detectorRef s \<noteq> None \<and> canvasRef s \<noteq> None
      then pending s @ [Suc (frameId s)] else pending s)
   \<and> animationFrameRef (detectHands_delegated active estimate s) =
     (if active \<and> videoRef s \<noteq> None \<and> detectorRef s \<noteq> None \<and> canvasRef s \<noteq> None
      then Some (Suc (frameId s)) else animationFrameRef s)"
proof (cases estimate)
  case (Inl err)
  then show ?thesis
    by (auto simp: detectHands_delegated_def consoleError_def scheduleTick_eq Let_def)
next
  case (Inr hnds)
  show ?thesis
  proof (cases "drawHands hnds (s\<lparr>handCount := int (length hnds)\<rparr>)")
    case (Returned s')
    from drawHands_keeps [of hnds _ s', OF disjI1, OF this]
    have "pending s' = pending s" "animationFrameRef s' = animationFrameRef s"
      "frameId s' = frameId s"
      by simp_all
    with Inr Returned show ?thesis
      by (auto simp: detectHands_delegated_def scheduleTick_eq Let_def)
  next
    case (Threw e s')
    from drawHands_keeps [of hnds _ s' e, OF disjI2, OF this]
    have "pending s' = pending s" "animationFrameRef s' = animationFrameRef s"
      "frameId s' = frameId s"
      by simp_all
    with Inr Threw show ?thesis
      by (auto simp: detectHands_delegated_def consoleError_def scheduleTick_eq Let_def)
  qed
qed

text \<open>
  Claim C8. In the delegated variant, \<^verbatim>\<open>start()\<close> without a loaded detector sets the
  message that the model is not loaded and changes nothing else: the camera is not
  requested, no tick is queued, the component does not become active, and the failure
  path of the camera (its message, its log line) is not taken. The code has no state of
  its own for an error: the message is all that tells the two apart.
\<close>

theorem start_before_model_ready:
  assumes "detectorRef s = None"
  shows "startDetection_delegated active userMedia played s =
           s\<lparr>error := Some ''Hand detection model not loaded yet. Please try again.''\<rparr>
         \<and> cameraRequests (startDetection_delegated active userMedia played s) = cameraRequests s
         \<and> pending (startDetection_delegated active userMedia played s) = pending s
         \<and> isActive (startDetection_delegated active userMedia played s) = isActive s
         \<and> console (startDetection_delegated active userMedia played s) = console s
         \<and> error (startDetection_delegated active userMedia played s) \<noteq> error (cameraFailed s)"
  using assms by (simp add: startDetection_delegated_def cameraFailed_def consoleError_def)

theorem start_before_model_ready_witness:
  "startDetection_delegated False (Inr [1, 2]) True mounted =
     mounted\<lparr>error := Some ''Hand detection model not loaded yet. Please try again.''\<rparr>
   \<and> cameraRequests (startDetection_delegated False (Inr [1, 2]) True mounted) = 0
   \<and> pending (startDetection_delegated False (Inr [1, 2]) True mounted) = []
   \<and> \<not> isActive (startDetection_delegated False (Inr [1, 2]) True mounted)"
proof -
  have d: "detectorRef mounted = None"
    by (simp add: mounted_def)
  from start_before_model_ready [OF d, of False "Inr [1, 2]" True] show ?thesis
    by (simp add: mounted_def)
qed

section \<open>Hand counts of the mock variants\<close>

lemma randomHandCount_range:
  assumes "0 \<le> r" and "r < 1"
  shows "\<lfloor>r * 2\<rfloor> + 1 = 1 \<or> \<lfloor>r * 2\<rfloor> + 1 = (2 :: int)"
proof -
  have "0 \<le> \<lfloor>r * 2\<rfloor>"
    using assms by simp
  moreover have "\<lfloor>r * 2\<rfloor> < 2"
    using assms by (simp add: floor_less_iff)
  ultimately show ?thesis by arith
qed

lemma handCount_detectHands_mock:
  "handCount (detectHands_mock active random s) =
     (if processesFrame_mock active s then \<lfloor>random * 2\<rfloor> + 1 else handCount s)"
  by (simp add: detectHands_mock_def processesFrame_mock_def scheduleTick_eq Let_def
      split: option.splits)

lemma handCount_updateCanvas:
  "handCount (updateCanvas subtract active timestamp random now s) =
     (if processesFrame_throttled subtract active timestamp s then \<lfloor>random * 2\<rfloor> + 1
      else handCount s)"
  by (simp add: updateCanvas_def processesFrame_throttled_def processesFrame_mock_def
      scheduleTick_eq Let_def split: option.splits)

lemma handCounts_mock_range:
  assumes "list_all (\<lambda>r. 0 \<le> r \<and> r < 1) rs"
  shows "list_all (\<lambda>n. n = 1 \<or> n = 2) (handCounts_mock active rs s)"
  using assms
proof (induction rs arbitrary: s)
  case Nil
  then show ?case by simp
next
  case (Cons r rs)
  then have r: "0 \<le> r" "r < 1" and rest: "list_all (\<lambda>r. 0 \<le> r \<and> r < 1) rs"
    by simp_all
  show ?case
  proof (cases "pending s")
    case Nil
    then show ?thesis by simp
  next
    case (Cons h hs)
    with randomHandCount_range [OF r] Cons.IH [OF rest] show ?thesis
      by (simp add: handCount_detectHands_mock Let_def)
  qed
qed

lemma handCounts_throttled_range:
  assumes "list_all (\<lambda>(timestamp, r, now). 0 \<le> r \<and> r < 1) ticks"
  shows "list_all (\<lambda>n. n = 1 \<or> n = 2) (handCounts_throttled subtract active ticks s)"
  using assms
proof (induction ticks arbitrary: s)
  case Nil
  then show ?case by simp
next
  case (Cons tick ticks)
  obtain timestamp r now where tick: "tick = (timestamp, r, now)"
    by (cases tick) auto
  with Cons.prems have r: "0 \<le> r" "r < 1"
    and rest: "list_all (\<lambda>(timestamp, r, now). 0 \<le> r \<and> r < 1) ticks"
    by simp_all
  show ?case
  proof (cases "pending s")
    case Nil
    then show ?thesis by (simp add: tick)
  next
    case (Cons h hs)
    with randomHandCount_range [OF r] Cons.IH [OF rest] show ?thesis
      by (simp add: tick handCount_updateCanvas Let_def)
  qed
qed

lemma processesFrame_mock_pending:
  "processesFrame_mock active (s\<lparr>pending := p\<rparr>) = processesFrame_mock active s"
  by (simp add: processesFrame_mock_def)

lemma detectHands_mock_loop:
  "pending (detectHands_mock active random s) =
     (if processesFrame_mock active s then pending s @ [Suc (frameId s)] else pending s)"
  "frameId (detectHands_mock active random s) =
     (if processesFrame_mock active s then Suc (frameId s) else frameId s)"
  "processesFrame_mock a (detectHands_mock active random s) = processesFrame_mock a s"
  by (simp_all add: detectHands_mock_def processesFrame_mock_def scheduleTick_eq Let_def
      split: option.splits)

lemma updateCanvas_loop:
  "pending (updateCanvas subtract active timestamp random now s) =
     (if processesFrame_throttled subtract active timestamp s
         \<or> (active \<and> videoRef s \<noteq> None \<and> canvasRef s \<noteq> None
              \<and> subtract timestamp (lastFrameTime s) < 33)
      then pending s @ [Suc (frameId s)] else pending s)"
  "frameId (updateCanvas subtract active timestamp random now s) =
     (if processesFrame_throttled subtract active timestamp s
         \<or> (active \<and> videoRef s \<noteq> None \<and> canvasRef s \<noteq> None
              \<and> subtract timestamp (lastFrameTime s) < 33)
      then Suc (frameId s) else frameId s)"
  "lastFrameTime (updateCanvas subtract active timestamp random now s) =
     (if videoRef s \<noteq> None \<and> canvasRef s \<noteq> None \<and> \<not> subtract timestamp (lastFrameTime s) < 33
      then timestamp else lastFrameTime s)"
  "processesFrame_mock a (updateCanvas subtract active timestamp random now s) = processesFrame_mock a s"
  "videoRef (updateCanvas subtract active timestamp random now s) = videoRef s"
  "(canvasRef (updateCanvas subtract active timestamp random now s) = None) = (canvasRef s = None)"
  by (auto simp: updateCanvas_def processesFrame_throttled_def processesFrame_mock_def
      scheduleTick_eq Let_def split: option.splits)

lemma streaming_fields:
  "pending streaming = [5]" "frameId streaming = 5" "lastFrameTime streaming = 100"
  "videoRef streaming \<noteq> None" "canvasRef streaming \<noteq> None"
  "processesFrame_mock True streaming"
  by (simp_all add: streaming_def processesFrame_mock_def)

lemma mock_run_of_three:
  "handCounts_mock True [0, 1 / 2, 99 / 100] streaming = [1, 2, 2]"
  by (simp add: handCount_detectHands_mock detectHands_mock_loop processesFrame_mock_pending
      streaming_fields Let_def)

lemma throttled_run_of_three:
  "handCounts_throttled exactMinus True [(110, 1 / 4, 0), (140, 3 / 4, 0), (150, 0, 0)] streaming = [2]"
  by (simp add: handCount_updateCanvas updateCanvas_loop processesFrame_mock_pending
      processesFrame_throttled_def streaming_fields exactMinus_def Let_def)

text \<open>
  Claim C9. In both mock variants, over every run of ticks whose random draws lie in
  \<open>[0, 1)\<close> (as \<^verbatim>\<open>Math.random()\<close> promises), whatever the timestamps, every hand count set
  by a tick that processes a frame is 1 or 2.
\<close>

theorem mock_hand_count_one_or_two:
  assumes "list_all (\<lambda>r. 0 \<le> r \<and> r < 1) rs"
    and "list_all (\<lambda>(timestamp, r, now). 0 \<le> r \<and> r < 1) ticks"
  shows "list_all (\<lambda>n. n = 1 \<or> n = 2) (handCounts_mock active rs s)
         \<and> list_all (\<lambda>n. n = 1 \<or> n = 2) (handCounts_throttled subtract active ticks s)"
  using assms by (simp add: handCounts_mock_range handCounts_throttled_range)

theorem mock_hand_count_one_or_two_witness:
  "list_all (\<lambda>n. n = 1 \<or> n = 2) (handCounts_mock True [0, 1 / 2, 99 / 100] streaming)
   \<and> handCounts_mock True [0, 1 / 2, 99 / 100] streaming = [1, 2, 2]
   \<and> list_all (\<lambda>n. n = 1 \<or> n = 2)
        (handCounts_throttled exactMinus True [(110, 1 / 4, 0), (140, 3 / 4, 0), (150, 0, 0)] streaming)
   \<and> handCounts_throttled exactMinus True [(110, 1 / 4, 0), (140, 3 / 4, 0), (150, 0, 0)] streaming = [2]"
proof -
  have a: "list_all (\<lambda>r. 0 \<le> r \<and> r < 1) [0, 1 / 2, 99 / 100 :: real]"
    by simp
  have b: "list_all (\<lambda>(timestamp, r, now). 0 \<le> r \<and> r < 1)
             [(110, 1 / 4, 0), (140, 3 / 4, 0), (150, 0, 0 :: real) :: real \<times> real \<times> real]"
    by simp
  from mock_hand_count_one_or_two [OF a b, of True streaming exactMinus]
    mock_run_of_three throttled_run_of_three
  show ?thesis by simp
qed

section \<open>The pending tick stays tracked\<close>

text \<open>
  The states the component reaches are tracked: the mounted component is; a tick that
  the host runs, having taken it off the list, leaves at most the tick it queued; so do
  the first tick, called with nothing pending, \<^verbatim>\<open>start()\<close> and \<^verbatim>\<open>stop()\<close>.
\<close>

lemma tracked_mounted: "tracked mounted"
  by (simp add: tracked_def mounted_def)

lemma tracked_taken:
  assumes "tracked s" and "pending s = h # hs"
  shows "pending (s\<lparr>pending := hs\<rparr>) = []"
  using assms by (simp add: tracked_def)

lemma tracked_scheduleTick:
  assumes "pending s = []"
  shows "tracked (scheduleTick active s)"
  using assms by (simp add: tracked_def scheduleTick_eq)

lemma animationFrameRef_detectHands_mock:
  "animationFrameRef (detectHands_mock active random s) =
     (if processesFrame_mock active s then Some (Suc (frameId s)) else animationFrameRef s)"
  by (simp add: detectHands_mock_def processesFrame_mock_def scheduleTick_eq Let_def
      split: option.splits)

lemma animationFrameRef_updateCanvas:
  "animationFrameRef (updateCanvas subtract active timestamp random now s) =
     (if processesFrame_throttled subtract active timestamp s
         \<or> (active \<and> videoRef s \<noteq> None \<and> canvasRef s \<noteq> None
              \<and> subtract timestamp (lastFrameTime s) < 33)
      then Some (Suc (frameId s)) else animationFrameRef s)"
  by (auto simp: updateCanvas_def processesFrame_throttled_def processesFrame_mock_def
      scheduleTick_eq Let_def split: option.splits)

lemma tracked_tick:
  assumes "pending s = []"
  shows "tracked (detectHands_mock active random s)"
    and "tracked (updateCanvas subtract active timestamp random now s)"
    and "tracked (detectHands_delegated active estimate s)"
proof -
  show "tracked (detectHands_mock active random s)"
    using assms
    by (simp add: tracked_def detectHands_mock_loop animationFrameRef_detectHands_mock)
  show "tracked (updateCanvas subtract active timestamp random now s)"
    using assms
    by (simp add: tracked_def updateCanvas_loop animationFrameRef_updateCanvas)
  from detectHands_delegated_schedule [of active estimate s]
  have "pending (detectHands_delegated active estimate s) = pending s
        \<or> pending (detectHands_delegated active estimate s) = pending s @ [Suc (frameId s)]
          \<and> animationFrameRef (detectHands_delegated active estimate s) = Some (Suc (frameId s))"
    by (simp split: if_splits)
  with assms show "tracked (detectHands_delegated active estimate s)"
    by (auto simp: tracked_def)
qed

lemma tracked_start:
  assumes "tracked s"
  shows "tracked (startDetection_delegated active userMedia played s)"
  using assms
  by (simp add: tracked_def startDetection_delegated_def cameraFailed_def consoleError_def
      Let_def split: sum.splits option.splits list.splits)

lemma tracked_stop:
  assumes "tracked s"
  shows "tracked (stopDetection_delegated s)"
    and "tracked (stopDetection_mock s)"
    and "tracked (stopDetection_throttled s)"
  using tracked_removeAll [OF assms]
  by (simp_all add: tracked_def stop_delegated_fields stop_mock_fields stop_throttled_fields)



section \<open>The stale closure\<close>

text \<open>
  \<^verbatim>\<open>startDetection\<close> is only offered by a render whose \<^verbatim>\<open>isActive\<close> is false, so the handler
  it installs, the tick that handler calls or queues and every tick that tick queues
  read \<^verbatim>\<open>isActive\<close> as false, whatever the state has become. In the delegated and in the
  mock variant the ticks are the only writers of \<open>animationFrameRef\<close>, under
  \<^verbatim>\<open>if (isActive)\<close>: along every run the component stays quiet.
\<close>

lemma quiet_mounted: "quiet mounted"
  by (simp add: quiet_def mounted_def)

lemma quiet_tracked:
  assumes "quiet s"
  shows "tracked s"
  using assms by (simp add: quiet_def tracked_def)

lemma detectHands_delegated_inactive:
  "pending (detectHands_delegated False estimate s) = pending s"
  "animationFrameRef (detectHands_delegated False estimate s) = animationFrameRef s"
  "videoRef (detectHands_delegated False estimate s) = videoRef s"
  "isActive (detectHands_delegated False estimate s) = isActive s"
proof -
  have "pending (detectHands_delegated False estimate s) = pending s
        \<and> animationFrameRef (detectHands_delegated False estimate s) = animationFrameRef s
        \<and> videoRef (detectHands_delegated False estimate s) = videoRef s
        \<and> isActive (detectHands_delegated False estimate s) = isActive s"
  proof (cases estimate)
    case (Inl err)
    then show ?thesis
      by (simp add: detectHands_delegated_def consoleError_def)
  next
    case (Inr hnds)
    show ?thesis
    proof (cases "drawHands hnds (s\<lparr>handCount := int (length hnds)\<rparr>)")
      case (Returned s')
      from drawHands_keeps [of hnds _ s', OF disjI1, OF this] Inr Returned show ?thesis
        by (simp add: detectHands_delegated_def)
    next
      case (Threw e s')
      from drawHands_keeps [of hnds _ s' e, OF disjI2, OF this] Inr Threw show ?thesis
        by (simp add: detectHands_delegated_def consoleError_def)
    qed
  qed
  then show "pending (detectHands_delegated False estimate s) = pending s"
    and "animationFrameRef (detectHands_delegated False estimate s) = animationFrameRef s"
    and "videoRef (detectHands_delegated False estimate s) = videoRef s"
    and "isActive (detectHands_delegated False estimate s) = isActive s"
    by simp_all
qed

lemma detectHands_mock_inactive:
  "pending (detectHands_mock False random s) = pending s"
  "animationFrameRef (detectHands_mock False random s) = animationFrameRef s"
  "videoRef (detectHands_mock False random s) = videoRef s"
  "isActive (detectHands_mock False random s) = isActive s"
  "handCount (detectHands_mock False random s) = handCount s"
  by (simp_all add: detectHands_mock_def Let_def split: option.splits)

lemma updateCanvas_inactive:
  "pending (updateCanvas subtract False timestamp random now s) = pending s"
  "animationFrameRef (updateCanvas subtract False timestamp random now s) = animationFrameRef s"
  "videoRef (updateCanvas subtract False timestamp random now s) = videoRef s"
  "isActive (updateCanvas subtract False timestamp random now s) = isActive s"
  "handCount (updateCanvas subtract False timestamp random now s) = handCount s"
  "queued (updateCanvas subtract False timestamp random now s) = queued s"
  by (simp_all add: updateCanvas_def Let_def split: option.splits)

lemma quiet_initializeDetector:
  assumes "quiet s"
  shows "quiet (initializeDetector loaded s)"
  using assms by (simp add: quiet_def initializeDetector_def consoleError_def Let_def)

lemma quiet_click_delegated:
  assumes "quiet s"
  shows "quiet (click_delegated userMedia played s)"
proof (cases "isLoading s")
  case True
  with assms show ?thesis by (simp add: click_delegated_def)
next
  case False
  show ?thesis
  proof (cases "isActive s")
    case True
    with assms \<open>\<not> isLoading s\<close> show ?thesis
      by (simp add: click_delegated_def quiet_def stop_delegated_fields truthy_def
          split: option.splits)
  next
    case False
    with assms \<open>\<not> isLoading s\<close> show ?thesis
      by (simp add: click_delegated_def quiet_def startDetection_delegated_def
          cameraFailed_def consoleError_def Let_def split: option.splits sum.splits)
  qed
qed

lemma quiet_loadedmetadata_delegated:
  assumes "quiet s"
  shows "quiet (loadedmetadata_delegated w ht estimate s)"
proof (cases "videoRef s")
  case None
  with assms show ?thesis by (simp add: loadedmetadata_delegated_def)
next
  case (Some v)
  with assms have h: "onloadedmetadata v = None \<or> onloadedmetadata v = Some False"
    by (cases "onloadedmetadata v") (simp_all add: quiet_def)
  with assms Some show ?thesis
    by (auto simp: loadedmetadata_delegated_def onloadedmetadata_delegated_def quiet_def
        detectHands_delegated_inactive Let_def split: option.splits)
qed

lemma quiet_animationFrame_delegated:
  assumes "quiet s"
  shows "quiet (animationFrame_delegated estimate s)"
  using assms by (simp add: animationFrame_delegated_def quiet_def)

lemma quiet_step_delegated:
  assumes "quiet s"
  shows "quiet (step_delegated e s)"
  using assms
  by (cases e)
    (simp_all add: quiet_initializeDetector quiet_click_delegated
      quiet_loadedmetadata_delegated quiet_animationFrame_delegated)

lemma quiet_fold_delegated:
  assumes "quiet s"
  shows "quiet (fold step_delegated events s)"
  using assms by (induction events arbitrary: s) (simp_all add: quiet_step_delegated)

lemma quiet_run_delegated: "quiet (run_delegated events)"
  unfolding run_delegated_def by (rule quiet_fold_delegated [OF quiet_mounted])

lemma quiet_click_mock:
  assumes "quiet s"
  shows "quiet (click_mock userMedia played s)"
proof (cases "isLoading s")
  case True
  with assms show ?thesis by (simp add: click_mock_def)
next
  case False
  show ?thesis
  proof (cases "isActive s")
    case True
    with assms \<open>\<not> isLoading s\<close> show ?thesis
      by (simp add: click_mock_def quiet_def stop_mock_fields truthy_def split: option.splits)
  next
    case False
    with assms \<open>\<not> isLoading s\<close> show ?thesis
      by (simp add: click_mock_def quiet_def startDetection_mock_def
          cameraFailed_mock_def consoleError_def Let_def split: option.splits sum.splits)
  qed
qed

lemma quiet_loadedmetadata_mock:
  assumes "quiet s"
  shows "quiet (loadedmetadata_mock w ht random s)"
proof (cases "videoRef s")
  case None
  with assms show ?thesis by (simp add: loadedmetadata_mock_def)
next
  case (Some v)
  with assms have h: "onloadedmetadata v = None \<or> onloadedmetadata v = Some False"
    by (cases "onloadedmetadata v") (simp_all add: quiet_def)
  with assms Some show ?thesis
    by (auto simp: loadedmetadata_mock_def onloadedmetadata_mock_def quiet_def
        detectHands_mock_inactive Let_def split: option.splits)
qed

lemma quiet_animationFrame_mock:
  assumes "quiet s"
  shows "quiet (animationFrame_mock random s)"
  using assms by (simp add: animationFrame_mock_def quiet_def)

lemma quiet_step_mock:
  assumes "quiet s"
  shows "quiet (step_mock e s)"
  using assms
  by (cases e)
    (simp_all add: quiet_click_mock quiet_loadedmetadata_mock quiet_animationFrame_mock)

lemma quiet_fold_mock:
  assumes "quiet s"
  shows "quiet (fold step_mock events s)"
  using assms by (induction events arbitrary: s) (simp_all add: quiet_step_mock)

lemma quiet_run_mock: "quiet (run_mock events)"
  unfolding run_mock_def by (rule quiet_fold_mock [OF quiet_mounted])

lemma tracked_run:
  "tracked (run_delegated events)"
  "tracked (run_mock events')"
  by (simp_all add: quiet_tracked quiet_run_delegated quiet_run_mock)


text \<open>
  The throttled variant queues its first tick from the handler, so it is not quiet; but
  every closure it holds reads \<^verbatim>\<open>isActive\<close> as false, and a tick that the host runs queues
  nothing.
\<close>

lemma stale_mounted: "stale mounted"
  by (simp add: stale_def mounted_def)

lemma stale_click_throttled:
  assumes "stale s"
  shows "stale (click_throttled userMedia s)"
proof (cases "isLoading s")
  case True
  with assms show ?thesis by (simp add: click_throttled_def)
next
  case False
  show ?thesis
  proof (cases "isActive s")
    case True
    with assms \<open>\<not> isLoading s\<close> show ?thesis
      by (auto simp: click_throttled_def stale_def stop_throttled_fields list_all_iff
          split: option.splits)
  next
    case False
    with assms \<open>\<not> isLoading s\<close> show ?thesis
      by (simp add: click_throttled_def stale_def startDetection_throttled_def
          consoleError_def Let_def split: option.splits sum.splits)
  qed
qed

lemma stale_loadedmetadata_throttled:
  assumes "stale s"
  shows "stale (loadedmetadata_throttled w ht playError s)"
proof (cases "videoRef s")
  case None
  with assms show ?thesis by (simp add: loadedmetadata_throttled_def)
next
  case (Some v)
  with assms have h: "onloadedmetadata v = None \<or> onloadedmetadata v = Some False"
    by (cases "onloadedmetadata v") (simp_all add: stale_def)
  with assms Some show ?thesis
    by (auto simp: loadedmetadata_throttled_def onloadedmetadata_throttled_def stale_def
        scheduleTick_eq list_all_iff Let_def split: option.splits)
qed

lemma stale_animationFrame_throttled:
  assumes "stale s"
  shows "stale (animationFrame_throttled subtract timestamp random now s)"
    and "pending (animationFrame_throttled subtract timestamp random now s) = tl (pending s)"
proof -
  show "stale (animationFrame_throttled subtract timestamp random now s)"
  proof (cases "pending s")
    case Nil
    with assms show ?thesis by (simp add: animationFrame_throttled_def)
  next
    case (Cons h rest)
    with assms have "\<not> queued s h" and "list_all (\<lambda>h. \<not> queued s h) rest"
      by (simp_all add: stale_def)
    with assms Cons show ?thesis
      by (simp add: animationFrame_throttled_def stale_def updateCanvas_inactive)
  qed
  show "pending (animationFrame_throttled subtract timestamp random now s) = tl (pending s)"
  proof (cases "pending s")
    case Nil
    then show ?thesis by (simp add: animationFrame_throttled_def)
  next
    case (Cons h rest)
    with assms have "\<not> queued s h"
      by (simp add: stale_def)
    with Cons show ?thesis
      by (simp add: animationFrame_throttled_def updateCanvas_inactive)
  qed
qed

text \<open>
  The video reports the metadata of a stream once, and a stream is only attached while
  the component is not active: every run of the throttled variant is orderly, so its one
  pending tick is the one \<open>animationFrameRef\<close> records, and after a tick that the host
  runs nothing is pending.
\<close>

lemma orderly_mounted: "orderly mounted"
  by (simp add: orderly_def tracked_mounted stale_mounted) (simp add: mounted_def)

lemma orderly_click_throttled:
  assumes "orderly s"
  shows "orderly (click_throttled userMedia s)"
proof -
  from assms have t: "tracked s" and st: "stale s"
    and p: "pending s \<noteq> [] \<longrightarrow> isActive s" by (simp_all add: orderly_def)
  have st': "stale (click_throttled userMedia s)" by (rule stale_click_throttled [OF st])
  show ?thesis
  proof (cases "isLoading s")
    case True
    with assms show ?thesis by (simp add: click_throttled_def)
  next
    case False
    show ?thesis
    proof (cases "isActive s")
      case True
      have "tracked (stopDetection_throttled s)" by (rule tracked_stop(3) [OF t])
      moreover have "pending (stopDetection_throttled s) = []"
        using tracked_removeAll [OF t] by (simp add: stop_throttled_fields)
      ultimately show ?thesis
        using st' True \<open>\<not> isLoading s\<close> by (simp add: orderly_def click_throttled_def)
    next
      case False
      with p have e: "pending s = []" by blast
      have pe: "pending (startDetection_throttled False userMedia s) = pending s"
        and ae: "animationFrameRef (startDetection_throttled False userMedia s) = animationFrameRef s"
        by (simp_all add: startDetection_throttled_def consoleError_def Let_def
            split: option.splits sum.splits)
      from t pe ae e have "tracked (startDetection_throttled False userMedia s)"
        by (simp add: tracked_def)
      with st' False \<open>\<not> isLoading s\<close> pe e show ?thesis
        by (simp add: orderly_def click_throttled_def)
    qed
  qed
qed

lemma orderly_loadedmetadata_throttled:
  assumes "orderly s"
  shows "orderly (loadedmetadata_throttled w ht playError s)"
proof -
  from assms have t: "tracked s" and st: "stale s" by (simp_all add: orderly_def)
  have st': "stale (loadedmetadata_throttled w ht playError s)"
    by (rule stale_loadedmetadata_throttled [OF st])
  show ?thesis
  proof (cases "videoRef s")
    case None
    with assms show ?thesis by (simp add: loadedmetadata_throttled_def)
  next
    case (Some v)
    show ?thesis
    proof (cases "srcObject v = None \<or> \<not> metadataDue v")
      case True
      with assms Some show ?thesis by (simp add: loadedmetadata_throttled_def)
    next
      case False
      with assms Some have e: "pending s = []" by (auto simp: orderly_def)
      with t have "tracked (loadedmetadata_throttled w ht playError s)
                   \<and> (pending (loadedmetadata_throttled w ht playError s) \<noteq> [] \<longrightarrow>
                        isActive (loadedmetadata_throttled w ht playError s)
                        \<and> (case videoRef (loadedmetadata_throttled w ht playError s) of
                             None \<Rightarrow> True | Some v \<Rightarrow> \<not> metadataDue v))"
        using Some False
        by (auto simp: loadedmetadata_throttled_def onloadedmetadata_throttled_def
            tracked_def scheduleTick_eq Let_def split: option.splits)
      with st' show ?thesis by (simp add: orderly_def)
    qed
  qed
qed

lemma orderly_animationFrame_throttled:
  assumes "orderly s"
  shows "orderly (animationFrame_throttled subtract timestamp random now s)"
    and "pending (animationFrame_throttled subtract timestamp random now s) = []"
proof -
  from assms have t: "tracked s" and st: "stale s" by (simp_all add: orderly_def)
  from t have "tl (pending s) = []" by (cases "pending s") (simp_all add: tracked_def)
  with stale_animationFrame_throttled(2) [OF st]
  show e: "pending (animationFrame_throttled subtract timestamp random now s) = []"
    by simp
  with stale_animationFrame_throttled(1) [OF st]
  show "orderly (animationFrame_throttled subtract timestamp random now s)"
    by (simp add: orderly_def tracked_def)
qed

lemma orderly_step_throttled:
  assumes "orderly s"
  shows "orderly (step_throttled subtract e s)"
  using assms
  by (cases e)
    (simp_all add: orderly_click_throttled orderly_loadedmetadata_throttled
      orderly_animationFrame_throttled)

lemma orderly_fold_throttled:
  assumes "orderly s"
  shows "orderly (fold (step_throttled subtract) events s)"
  using assms by (induction events arbitrary: s) (simp_all add: orderly_step_throttled)

lemma orderly_run_throttled: "orderly (run_throttled subtract events)"
  unfolding run_throttled_def by (rule orderly_fold_throttled [OF orderly_mounted])

lemma tracked_run_throttled: "tracked (run_throttled subtract events)"
  using orderly_run_throttled [of subtract events] by (simp add: orderly_def)

lemma started_throttled_fields:
  "isActive started_throttled" "pending started_throttled = [1]"
  "queued started_throttled (Suc 0) = False" "animationFrameRef started_throttled = Some 1"
  "lastFrameTime started_throttled = 0" "handCount started_throttled = 0"
  "surface started_throttled = []" "frameId started_throttled = 1"
  "videoRef started_throttled \<noteq> None" "canvasRef started_throttled \<noteq> None"
  by (simp_all add: started_throttled_def run_throttled_def loadedmetadata_throttled_def
      onloadedmetadata_throttled_def click_throttled_def startDetection_throttled_def
      scheduleTick_eq resize_def surface_def defaultContext_def mounted_def Let_def)

lemma first_tick_throttled:
  "animationFrame_throttled subtract timestamp random now started_throttled =
     updateCanvas subtract False timestamp random now (started_throttled\<lparr>pending := []\<rparr>)"
  by (simp add: animationFrame_throttled_def started_throttled_fields)

text \<open>
  Claim C6. In the throttled variant the first tick runs with the state active. When it
  comes less than 33 ms after the last processed frame (here at time 20, the last frame
  time still 0) it skips the frame, and queues no tick: it reads \<^verbatim>\<open>isActive\<close> as false.
  The chain ends there; whatever the run, the inputs of the tick and the rounding,
  nothing is pending after a tick.
\<close>

theorem throttled_tick_stalls:
  "isActive started_throttled
   \<and> pending started_throttled = [1]
   \<and> exactMinus 20 (lastFrameTime started_throttled) < 33
   \<and> isActive (animationFrame_throttled exactMinus 20 (1 / 2) 0 started_throttled)
   \<and> surface (animationFrame_throttled exactMinus 20 (1 / 2) 0 started_throttled) = []
   \<and> handCount (animationFrame_throttled exactMinus 20 (1 / 2) 0 started_throttled) = 0
   \<and> lastFrameTime (animationFrame_throttled exactMinus 20 (1 / 2) 0 started_throttled) = 0
   \<and> pending (animationFrame_throttled exactMinus 20 (1 / 2) 0 started_throttled) = []
   \<and> pending (animationFrame_throttled subtract timestamp random now
                (run_throttled subtract events)) = []"
proof -
  have below: "exactMinus 20 (lastFrameTime started_throttled) < 33"
    by (simp add: started_throttled_fields exactMinus_def)
  have skipped: "updateCanvas exactMinus False 20 (1 / 2) 0 (started_throttled\<lparr>pending := []\<rparr>)
                   = started_throttled\<lparr>pending := []\<rparr>"
    using below started_throttled_fields(9,10)
    by (auto simp: updateCanvas_def)
  show ?thesis
    using below
    by (simp add: first_tick_throttled skipped updateCanvas_inactive started_throttled_fields
        surface_def orderly_animationFrame_throttled(2) [OF orderly_run_throttled])
      (simp add: started_throttled_fields [unfolded surface_def])
qed


lemma started_mock_eq:
  "started_mock =
     detectHands_mock False (1 / 2)
       (mounted\<lparr>isActive := True, cameraRequests := 1,
          videoRef := Some \<lparr>srcObject = Some [1, 2], videoWidth = 640, videoHeight = 480,
                             onloadedmetadata = Some False, metadataDue = False\<rparr>,
          canvasRef := Some \<lparr>width = 640, height = 480, ctx2d = Some defaultContext\<rparr>\<rparr>)"
  by (simp add: started_mock_def run_mock_def click_mock_def startDetection_mock_def
      loadedmetadata_mock_def onloadedmetadata_mock_def resize_def mounted_def Let_def)

lemma started_delegated_eq:
  "started_delegated estimate =
     detectHands_delegated False estimate
       (mounted\<lparr>isActive := True, cameraRequests := 1, detectorRef := Some HandDetector,
          videoRef := Some \<lparr>srcObject = Some [1, 2], videoWidth = 640, videoHeight = 480,
                             onloadedmetadata = Some False, metadataDue = False\<rparr>,
          canvasRef := Some \<lparr>width = 640, height = 480, ctx2d = Some defaultContext\<rparr>\<rparr>)"
  by (simp add: started_delegated_def run_delegated_def initializeDetector_def
      click_delegated_def startDetection_delegated_def loadedmetadata_delegated_def
      onloadedmetadata_delegated_def resize_def mounted_def Let_def)

lemma started_delegated_quiet:
  "isActive (started_delegated estimate)" "pending (started_delegated estimate) = []"
  "animationFrameRef (started_delegated estimate) = None"
  by (simp_all add: started_delegated_eq detectHands_delegated_inactive mounted_def)

text \<open>
  Claim C1. The first tick of each variant runs with the state active and queues no tick:
  it reads \<^verbatim>\<open>isActive\<close> as the render in which Start was clicked bound it, false. In the
  mock and in the throttled variant it draws the frame but sets no hand count and renders
  no overlay; in the delegated variant it renders the overlay of the hand found. Nothing
  is pending after it: it is the only tick of the run.
\<close>

theorem first_tick_queues_no_tick:
  "isActive started_mock
   \<and> surface started_mock = [Image 0 0 640 480]
   \<and> handCount started_mock = 0
   \<and> pending started_mock = []
   \<and> isActive (started_delegated (Inr [demoHand]))
   \<and> surface (started_delegated (Inr [demoHand])) = Image 0 0 640 480 # expectedOverlay demoHand
   \<and> handCount (started_delegated (Inr [demoHand])) = 1
   \<and> pending (started_delegated (Inr [demoHand])) = []
   \<and> isActive started_throttled
   \<and> pending started_throttled = [1]
   \<and> isActive (animationFrame_throttled exactMinus 1000 (1 / 2) 0 started_throttled)
   \<and> surface (animationFrame_throttled exactMinus 1000 (1 / 2) 0 started_throttled)
       = [Image 0 0 640 480]
   \<and> handCount (animationFrame_throttled exactMinus 1000 (1 / 2) 0 started_throttled) = 0
   \<and> pending (animationFrame_throttled exactMinus 1000 (1 / 2) 0 started_throttled) = []"
proof -
  have mock: "isActive started_mock \<and> surface started_mock = [Image 0 0 640 480]
      \<and> handCount started_mock = 0 \<and> pending started_mock = []"
    by (simp add: started_mock_eq detectHands_mock_def drawImage_def surface_def
        defaultContext_def mounted_def)
  let ?armed = "mounted\<lparr>isActive := True, cameraRequests := 1, detectorRef := Some HandDetector,
          videoRef := Some \<lparr>srcObject = Some [1, 2], videoWidth = 640, videoHeight = 480,
                             onloadedmetadata = Some False, metadataDue = False\<rparr>,
          canvasRef := Some \<lparr>width = 640, height = 480, ctx2d = Some defaultContext\<rparr>,
          handCount := int (length [demoHand])\<rparr>"
  have c: "canvasRef ?armed = Some \<lparr>width = 640, height = 480, ctx2d = Some defaultContext\<rparr>"
    and x: "ctx2d \<lparr>width = 640, height = 480, ctx2d = Some defaultContext\<rparr> = Some defaultContext"
    and h: "\<forall>hnd \<in> set [demoHand]. 21 \<le> length (keypoints hnd)"
    by (simp_all add: demoHand_def)
  from drawHands_returns [OF c x h] obtain s' where
    d: "drawHands [demoHand] ?armed = Returned s'"
    and p: "surface s' = Image 0 0 640 480 # expectedOverlay demoHand"
    by (auto simp: mounted_def)
  from drawHands_keeps [of "[demoHand]" ?armed s', OF disjI1, OF d]
  have k: "handCount s' = 1" by simp
  from d have "started_delegated (Inr [demoHand]) = s'"
    by (simp add: started_delegated_eq detectHands_delegated_def mounted_def)
  with p k have delegated: "surface (started_delegated (Inr [demoHand]))
        = Image 0 0 640 480 # expectedOverlay demoHand
      \<and> handCount (started_delegated (Inr [demoHand])) = 1"
    by simp
  have processed: "\<not> exactMinus 1000 (lastFrameTime started_throttled) < 33"
    by (simp add: started_throttled_fields exactMinus_def)
  have throttled: "surface (animationFrame_throttled exactMinus 1000 (1 / 2) 0 started_throttled)
        = [Image 0 0 640 480]"
    by (simp add: first_tick_throttled)
      (simp add: updateCanvas_def exactMinus_def drawImage_def surface_def
        started_throttled_def run_throttled_def loadedmetadata_throttled_def
        onloadedmetadata_throttled_def
        click_throttled_def startDetection_throttled_def scheduleTick_eq resize_def
        defaultContext_def mounted_def Let_def)
  show ?thesis
    using mock delegated throttled
    by (simp add: started_delegated_quiet started_throttled_fields first_tick_throttled
        updateCanvas_inactive)
qed

text \<open>
  Claim C7. In the delegated variant the first tick runs with the state active; when the
  detector rejects its frame the failure is logged, and no tick is queued: the tick reads
  \<^verbatim>\<open>isActive\<close> as false. Whatever the detector yields, nothing is pending after the tick.
\<close>

theorem rejected_estimate_ends_loop:
  "isActive (started_delegated (Inl Rejected))
   \<and> console (started_delegated (Inl Rejected)) = [''Hand detection error:'']
   \<and> pending (started_delegated (Inl Rejected)) = []
   \<and> animationFrameRef (started_delegated (Inl Rejected)) = None
   \<and> pending (started_delegated estimate) = []"
  by (simp add: started_delegated_quiet)
    (simp add: started_delegated_eq detectHands_delegated_def consoleError_def mounted_def)




end
